theory Spec2Isabelle
  imports Complex_Main
begin

section \<open>The Claude API client of git-commit-ai (src/main.c)\<close>

text \<open>
  The program reads an API key, a profile and a git diff, posts one request to the
  completion endpoint, and splits the text of the reply into a title and a description.
  This theory embeds the functions of \<^verbatim>\<open>src/main.c\<close> in HOL.

  Conventions of the embedding.
  \<^item> A C \<^verbatim>\<open>char\<close> is a byte, a HOL \<^typ>\<open>char\<close>. A value of type \<^verbatim>\<open>char *\<close> that the
    code reads as a string is modelled by the string's content, the bytes before the
    terminator, of type \<^typ>\<open>string\<close>; a content never holds the byte 0. A \<^verbatim>\<open>NULL\<close>
    pointer is \<open>None\<close>.
  \<^item> Where the code fills a block of memory by index, the block is a \<^typ>\<open>char list\<close>
    of the allocated length and \<open>c_str\<close> reads the string stored at its start.
  \<^item> Everything outside the program is a field of the record \<open>world\<close>: whether an
    allocation succeeds, the bytes of fresh memory, the file system, the JSON library's
    parser and printer, and the HTTP transfer.
  \<^item> Calls that leave the program (printing, posting, parsing JSON, writing a file) are
    recorded as events, with their arguments, in the order the code makes them.
    \<^verbatim>\<open>debug_print\<close> only prints, and only when the debug flag is set; its lines are
    left out.
  \<^item> \<^verbatim>\<open>size_t\<close> is 64 bits wide; \<^verbatim>\<open>int\<close> is 32 bits wide.
\<close>

subsection \<open>Bytes, strings and memory blocks\<close>

abbreviation NUL :: char where "NUL \<equiv> CHR 0x00"
abbreviation LF :: char where "LF \<equiv> CHR 0x0A"
abbreviation CR :: char where "CR \<equiv> CHR 0x0D"
abbreviation TAB :: char where "TAB \<equiv> CHR 0x09"
abbreviation SP :: char where "SP \<equiv> CHR 0x20"

definition SIZE_MOD :: nat where
  "SIZE_MOD = 2 ^ 64"

definition INT_MAX :: nat where
  "INT_MAX = 2147483647"

text \<open>The string stored at the start of a block: the bytes before the first 0.\<close>

definition c_str :: "char list \<Rightarrow> string" where
  "c_str b = takeWhile (\<lambda>c. c \<noteq> NUL) b"

text \<open>A block can be read as a string only if it holds a terminator.\<close>

definition terminated :: "char list \<Rightarrow> bool" where
  "terminated b = (NUL \<in> set b)"

text \<open>
  \<^verbatim>\<open>strchr(s, c)\<close> for \<open>c \<noteq> 0\<close>: the offset of the first \<open>c\<close> in the string, or
  \<open>None\<close> for the \<^verbatim>\<open>NULL\<close> it returns when there is none.
\<close>

fun c_strchr :: "string \<Rightarrow> char \<Rightarrow> nat option" where
  "c_strchr [] c = None"
| "c_strchr (x # xs) c = (if x = c then Some 0 else map_option Suc (c_strchr xs c))"

text \<open>
  \<^verbatim>\<open>strncpy(dest, src, n)\<close>: the first \<open>n\<close> bytes of \<open>dest\<close> become the bytes of
  \<open>src\<close>, cut at \<open>n\<close> or padded with 0 up to \<open>n\<close>.
\<close>

definition c_strncpy :: "char list \<Rightarrow> string \<Rightarrow> nat \<Rightarrow> char list" where
  "c_strncpy dest src n = take n (src @ replicate n NUL) @ drop n dest"

text \<open>\<^verbatim>\<open>memcpy(dest, src, n)\<close> at the start of \<open>dest\<close>, for \<open>n\<close> within both blocks.\<close>

definition c_memcpy :: "char list \<Rightarrow> char list \<Rightarrow> nat \<Rightarrow> char list" where
  "c_memcpy dest src n = take n src @ drop n dest"

subsection \<open>The world outside the program\<close>

datatype cJSON =
    JFalse
  | JTrue
  | JNull
  | JNumber rat
  | JString "string option"
  | JArray "cJSON list"
  | JObject "(string \<times> cJSON) list"

datatype stream = Stdout | Stderr

datatype arg =
    Str "string option"
  | Long int
  | Chr int
  | Errno
  | Strerror nat

record http_request =
  url :: string
  headers :: "string list option"
  postfields :: string
  timeout :: nat
  connecttimeout :: nat

datatype event =
    Print stream string "arg list"
  | Json_Parse string
  | Http_Post http_request
  | File_Write string string "arg list"

text \<open>
  What a transfer does: the chunks of the body that the library hands to the write
  callback, in order, then the result code of \<^verbatim>\<open>curl_easy_perform\<close> (0 is
  \<^verbatim>\<open>CURLE_OK\<close>) and the HTTP status that \<^verbatim>\<open>CURLINFO_RESPONSE_CODE\<close> reports.
\<close>

record transfer =
  chunks :: "char list list"
  curl_code :: nat
  http_code :: int

datatype fs_entry = No_File | Unreadable | Content "char list"

record world =
  alloc_ok :: "nat \<Rightarrow> nat \<Rightarrow> bool"
  fresh :: "nat \<Rightarrow> char"
  lib_ok :: "nat \<Rightarrow> bool"
  cJSON_Parse :: "string \<Rightarrow> cJSON option"
  cJSON_GetErrorPtr :: "string \<Rightarrow> string option"
  cJSON_Print :: "cJSON \<Rightarrow> string"
  perform :: "http_request \<Rightarrow> transfer"
  getenv_HOME :: "string option"
  pw_dir :: "string option"
  files :: "string \<Rightarrow> fs_entry"
  writable :: "string \<Rightarrow> bool"

text \<open>
  \<open>alloc_ok w l n\<close>: the request for \<open>n\<close> bytes made by \<^verbatim>\<open>malloc\<close> or
  \<^verbatim>\<open>realloc\<close> at source line \<open>l\<close> succeeds. \<open>fresh w i\<close>: the byte at offset \<open>i\<close> of a
  block that \<^verbatim>\<open>malloc\<close> returns and nobody has written yet. \<open>lib_ok w l\<close>: the library
  call at source line \<open>l\<close> that can return \<^verbatim>\<open>NULL\<close> for lack of memory does not.
\<close>

definition c_malloc :: "world \<Rightarrow> nat \<Rightarrow> char list" where
  "c_malloc w n = map (fresh w) [0..<n]"

text \<open>
  \<^verbatim>\<open>realloc(p, n)\<close>: the block keeps its first bytes; bytes beyond the old length are
  fresh.
\<close>

definition c_realloc :: "world \<Rightarrow> char list \<Rightarrow> nat \<Rightarrow> char list" where
  "c_realloc w p n = take n p @ map (fresh w) [length p..<n]"

subsection \<open>\<^verbatim>\<open>str_duplicate\<close> (lines 65-74)\<close>

text \<open>
  \<open>l\<close> is the source line of the call, which names the allocation. The copy takes
  \<open>strlen(str) + 1\<close> bytes of the source: the content and its terminator.
\<close>

definition str_duplicate :: "world \<Rightarrow> nat \<Rightarrow> string option \<Rightarrow> string option" where
  "str_duplicate w l str =
     (case str of
        None \<Rightarrow> None
      | Some s \<Rightarrow>
          let len = length s + 1 in
          if alloc_ok w l len
          then Some (c_str (c_memcpy (c_malloc w len) (s @ [NUL]) len))
          else None)"

subsection \<open>The JSON library's accessors\<close>

text \<open>
  \<^verbatim>\<open>cJSON_GetObjectItem\<close> compares names without regard to the case of ASCII letters
  and returns the first member that matches; an item that is not an object has no named
  members.
\<close>

definition to_lower :: "char \<Rightarrow> char" where
  "to_lower c =
     (let n = (of_char c :: nat) in if 65 \<le> n \<and> n \<le> 90 then char_of (n + 32) else c)"

fun get_member :: "(string \<times> cJSON) list \<Rightarrow> string \<Rightarrow> cJSON option" where
  "get_member [] name = None"
| "get_member ((k, v) # kvs) name =
     (if map to_lower k = map to_lower name then Some v else get_member kvs name)"

fun cJSON_GetObjectItem :: "cJSON \<Rightarrow> string \<Rightarrow> cJSON option" where
  "cJSON_GetObjectItem (JObject kvs) name = get_member kvs name"
| "cJSON_GetObjectItem _ name = None"

fun cJSON_IsArray :: "cJSON \<Rightarrow> bool" where
  "cJSON_IsArray (JArray _) = True"
| "cJSON_IsArray _ = False"

fun cJSON_IsString :: "cJSON \<Rightarrow> bool" where
  "cJSON_IsString (JString _) = True"
| "cJSON_IsString _ = False"

fun valuestring :: "cJSON \<Rightarrow> string option" where
  "valuestring (JString s) = s"
| "valuestring _ = None"

text \<open>\<^verbatim>\<open>cJSON_GetArrayItem(a, 0)\<close>: the first child, \<^verbatim>\<open>NULL\<close> when there is none.\<close>

fun cJSON_GetArrayItem0 :: "cJSON \<Rightarrow> cJSON option" where
  "cJSON_GetArrayItem0 (JArray (x # _)) = Some x"
| "cJSON_GetArrayItem0 (JObject ((_, x) # _)) = Some x"
| "cJSON_GetArrayItem0 _ = None"

subsection \<open>\<^verbatim>\<open>parse_claude_response\<close> (lines 384-483)\<close>

text \<open>
  The loop of lines 442-444: \<open>line_start\<close> is an index into \<open>text_value\<close>; the test
  \<^verbatim>\<open>*line_start\<close> fails at the terminator, index \<open>length text_value\<close>.
\<close>

function skip_empty_lines :: "string \<Rightarrow> nat \<Rightarrow> nat" where
  "skip_empty_lines text_value line_start =
     (if line_start < length text_value
         \<and> (text_value ! line_start = LF \<or> text_value ! line_start = CR)
      then skip_empty_lines text_value (line_start + 1)
      else line_start)"
  by pat_completeness auto
termination
  by (relation "measure (\<lambda>(t, i). length t - i)") auto

declare skip_empty_lines.simps [simp del]

text \<open>
  The result of \<^verbatim>\<open>parse_claude_response\<close>: the return value, the strings left in
  \<^verbatim>\<open>*title\<close> and \<^verbatim>\<open>*description\<close>, and the events.
\<close>

type_synonym parse_result = "int \<times> string option \<times> string option \<times> event list"

text \<open>Lines 438-479, on the text of the first content item.\<close>

definition split_text :: "world \<Rightarrow> string \<Rightarrow> parse_result" where
  "split_text w text_value =
     (let line_start = skip_empty_lines text_value 0 in
      case c_strchr (drop line_start text_value) LF of
        Some k \<Rightarrow>
          let line_end = line_start + k;
              title_len = line_end - line_start
          in
          if \<not> alloc_ok w 449 (title_len + 1)
          then (0, None, None,
                [Print Stderr ''Error: Memory allocation failed for title\<newline>'' []])
          else
            let title =
                  (c_strncpy (c_malloc w (title_len + 1)) (drop line_start text_value) title_len)
                    [title_len := NUL];
                desc_len = (length text_value - line_end) + 1
            in
            if \<not> alloc_ok w 462 desc_len
            then (0, None, None,
                  [Print Stderr ''Error: Memory allocation failed for description\<newline>'' []])
            else
              let description =
                    (c_strncpy (c_malloc w desc_len) (drop (line_end + 1) text_value) (desc_len - 1))
                      [desc_len - 1 := NUL]
              in (1, Some (c_str title), Some (c_str description), [])
      | None \<Rightarrow>
          (1, str_duplicate w 477 (Some (drop line_start text_value)),
              str_duplicate w 478 (Some ''''), []))"

text \<open>
  The whole function. \<open>response\<close> may be \<^verbatim>\<open>NULL\<close>; \<open>title0\<close> and \<open>description0\<close> are
  what the caller's two variables hold before the call (the function's two pointer
  parameters are their addresses, which are not \<^verbatim>\<open>NULL\<close>).
\<close>

definition parse_claude_response ::
  "world \<Rightarrow> string option \<Rightarrow> string option \<Rightarrow> string option \<Rightarrow> parse_result" where
  "parse_claude_response w response title0 description0 =
     (case response of
        None \<Rightarrow>
          (0, title0, description0,
           [Print Stderr ''Error: Invalid parameters for response parsing\<newline>'' []])
      | Some r \<Rightarrow>
          (case cJSON_Parse w r of
             None \<Rightarrow>
               (0, None, None,
                [Json_Parse r,
                 (case cJSON_GetErrorPtr w r of
                    Some error_ptr \<Rightarrow>
                      Print Stderr ''Error: JSON parsing failed near: %s\<newline>''
                        [Str (Some error_ptr)]
                  | None \<Rightarrow> Print Stderr ''Error: JSON parsing failed\<newline>'' [])])
           | Some root_item \<Rightarrow>
               (case cJSON_GetObjectItem root_item ''content'' of
                  None \<Rightarrow>
                    (0, None, None,
                     [Json_Parse r,
                      Print Stderr
                        ''Error: Invalid response format (content field not found or not an array)\<newline>''
                        []])
                | Some content \<Rightarrow>
                    if \<not> cJSON_IsArray content
                    then
                      (0, None, None,
                       [Json_Parse r,
                        Print Stderr
                          ''Error: Invalid response format (content field not found or not an array)\<newline>''
                          []])
                    else
                      (case cJSON_GetArrayItem0 content of
                         None \<Rightarrow>
                           (0, None, None,
                            [Json_Parse r,
                             Print Stderr ''Error: Content array is empty\<newline>'' []])
                       | Some first_content \<Rightarrow>
                           (case cJSON_GetObjectItem first_content ''text'' of
                              None \<Rightarrow>
                                (0, None, None,
                                 [Json_Parse r,
                                  Print Stderr
                                    ''Error: Text field not found or not a string\<newline>'' []])
                            | Some text \<Rightarrow>
                                if \<not> cJSON_IsString text
                                then
                                  (0, None, None,
                                   [Json_Parse r,
                                    Print Stderr
                                      ''Error: Text field not found or not a string\<newline>'' []])
                                else
                                  (case valuestring text of
                                     None \<Rightarrow>
                                       (0, None, None,
                                        [Json_Parse r,
                                         Print Stderr ''Error: Text value is NULL\<newline>'' []])
                                   | Some text_value \<Rightarrow>
                                       (case split_text w text_value of
                                          (ret, title, description, evs) \<Rightarrow>
                                            (ret, title, description, Json_Parse r # evs))))))))"

subsection \<open>Formatting\<close>

text \<open>
  What \<^verbatim>\<open>snprintf\<close> and \<^verbatim>\<open>fprintf\<close> write for a format whose only conversions
  are \<^verbatim>\<open>%s\<close>: the format's characters, each \<^verbatim>\<open>%s\<close> replaced by the next
  argument. The text of an argument is copied, not scanned again.
\<close>

fun c_format :: "string \<Rightarrow> string list \<Rightarrow> string" where
  "c_format [] args = []"
| "c_format [c] args = [c]"
| "c_format (c # d # fmt) args =
     (if c = CHR ''%'' \<and> d = CHR ''s''
      then (case args of [] \<Rightarrow> c_format fmt [] | a # as \<Rightarrow> a @ c_format fmt as)
      else c # c_format (d # fmt) args)"

text \<open>
  \<^verbatim>\<open>snprintf(buf, n, fmt, ...)\<close> stores at most \<open>n - 1\<close> characters and a terminator;
  it returns, as an \<^verbatim>\<open>int\<close>, the length of the whole rendering, or a negative value
  when that length does not fit an \<^verbatim>\<open>int\<close>.
\<close>

definition snprintf_stored :: "nat \<Rightarrow> string \<Rightarrow> string list \<Rightarrow> string" where
  "snprintf_stored n fmt args = take (n - 1) (c_format fmt args)"

definition snprintf_returns :: "string \<Rightarrow> string list \<Rightarrow> int" where
  "snprintf_returns fmt args =
     (let n = length (c_format fmt args) in if n \<le> INT_MAX then int n else - 1)"

subsection \<open>\<^verbatim>\<open>WriteMemoryCallback\<close> (lines 38-62)\<close>

datatype fault = Undefined_behaviour

record MemoryStruct =
  memory :: "char list"
  size_bytes :: nat

text \<open>
  \<open>contents\<close> is the block the library passes, \<open>sz\<close> and \<open>nmemb\<close> its two size
  arguments. The arithmetic is that of \<^verbatim>\<open>size_t\<close>. A copy or a store that would leave
  its block is undefined behaviour.
\<close>

definition WriteMemoryCallback ::
  "world \<Rightarrow> char list \<Rightarrow> nat \<Rightarrow> nat \<Rightarrow> MemoryStruct
     \<Rightarrow> fault + (nat \<times> MemoryStruct \<times> event list)" where
  "WriteMemoryCallback w contents sz nmemb mem =
     (let realsize = (sz * nmemb) mod SIZE_MOD;
          request = (size_bytes mem + realsize + 1) mod SIZE_MOD
      in
      if \<not> alloc_ok w 48 request
      then Inr (0, mem,
                [Print Stderr ''Error: Not enough memory (realloc returned NULL)\<newline>'' []])
      else
        let ptr = c_realloc w (memory mem) request in
        if length contents < realsize \<or> length ptr < size_bytes mem + realsize + 1
        then Inl Undefined_behaviour
        else
          let copied = take (size_bytes mem) ptr @ take realsize contents
                         @ drop (size_bytes mem + realsize) ptr;
              new_size = size_bytes mem + realsize
          in Inr (realsize, \<lparr>memory = copied[new_size := NUL], size_bytes = new_size\<rparr>, []))"

subsection \<open>\<^verbatim>\<open>get_home_dir\<close> and the default paths (lines 77-125)\<close>

definition get_home_dir :: "world \<Rightarrow> string option \<times> event list" where
  "get_home_dir w =
     (case getenv_HOME w of
        Some home_dir \<Rightarrow> (Some home_dir, [])
      | None \<Rightarrow>
          (case pw_dir w of
             None \<Rightarrow>
               (None, [Print Stderr ''Error: Could not determine home directory\<newline>'' []])
           | Some home_dir \<Rightarrow> (Some home_dir, [])))"

definition get_default_profile_path :: "world \<Rightarrow> string option \<times> event list" where
  "get_default_profile_path w =
     (case get_home_dir w of
        (None, evs) \<Rightarrow> (None, evs)
      | (Some home_dir, evs) \<Rightarrow>
          let path_len = length home_dir + length ''/.config/claude/profile.txt'' + 1 in
          if \<not> alloc_ok w 100 path_len
          then (None, evs @
                 [Print Stderr
                    ''Error: Memory allocation failed for default profile path\<newline>'' []])
          else (Some (snprintf_stored path_len ''%s/.config/claude/profile.txt'' [home_dir]),
                evs))"

definition get_default_api_key_path :: "world \<Rightarrow> string option \<times> event list" where
  "get_default_api_key_path w =
     (case get_home_dir w of
        (None, evs) \<Rightarrow> (None, evs)
      | (Some home_dir, evs) \<Rightarrow>
          let path_len = length home_dir + length ''/.config/claude/api_key.txt'' + 1 in
          if \<not> alloc_ok w 117 path_len
          then (None, evs @
                 [Print Stderr
                    ''Error: Memory allocation failed for default API key path\<newline>'' []])
          else (Some (snprintf_stored path_len ''%s/.config/claude/api_key.txt'' [home_dir]),
                evs))"

subsection \<open>Files (lines 140-181)\<close>

text \<open>
  \<^verbatim>\<open>access(path, F_OK)\<close> succeeds for a file that is there, readable or not. A path
  that is \<^verbatim>\<open>NULL\<close> names no file.
\<close>

definition file_exists :: "world \<Rightarrow> string option \<Rightarrow> bool" where
  "file_exists w file_path =
     (case file_path of None \<Rightarrow> False | Some p \<Rightarrow> files w p \<noteq> No_File)"

text \<open>
  \<^verbatim>\<open>read_file\<close> returns the block it filled: the bytes of the file and a terminator
  (the file is a regular file, read in full).
\<close>

definition read_file :: "world \<Rightarrow> string option \<Rightarrow> char list option \<times> event list" where
  "read_file w file_path =
     (case (case file_path of None \<Rightarrow> No_File | Some p \<Rightarrow> files w p) of
        Content bytes \<Rightarrow>
          let file_size = length bytes in
          if \<not> alloc_ok w 163 (file_size + 1)
          then (None,
                [Print Stderr ''Error: Memory allocation failed for file content\<newline>'' []])
          else (Some ((c_memcpy (c_malloc w (file_size + 1)) bytes file_size)[file_size := NUL]),
                [])
      | _ \<Rightarrow>
          (None,
           [Print Stderr ''Error: Failed to open file: %s (%s)\<newline>''
              [Str file_path, Errno]]))"

subsection \<open>\<^verbatim>\<open>trim_string\<close> and \<^verbatim>\<open>read_api_key\<close> (lines 184-215)\<close>

definition is_space :: "char \<Rightarrow> bool" where
  "is_space c = (c = SP \<or> c = LF \<or> c = CR \<or> c = TAB)"

text \<open>
  The first loop, lines 189-191, on the block \<open>str\<close> with \<open>start\<close> an index into it.
  The block holds a terminator, where the loop stops at the latest.
\<close>

function trim_leading :: "char list \<Rightarrow> nat \<Rightarrow> nat" where
  "trim_leading str start =
     (if start < length str \<and> str ! start \<noteq> NUL \<and> is_space (str ! start)
      then trim_leading str (start + 1)
      else start)"
  by pat_completeness auto
termination
  by (relation "measure (\<lambda>(s, i). length s - i)") auto

declare trim_leading.simps [simp del]

text \<open>
  The second loop, lines 199-202; \<open>e\<close> is the index \<^verbatim>\<open>end - str\<close>, which is \<open>-1\<close> for
  the empty string.
\<close>

function trim_trailing :: "char list \<Rightarrow> int \<Rightarrow> char list" where
  "trim_trailing str e =
     (if e > 0 \<and> is_space (str ! nat e)
      then trim_trailing (str[nat e := NUL]) (e - 1)
      else str)"
  by pat_completeness auto
termination
  by (relation "measure (\<lambda>(s, e). nat e)") auto

declare trim_trailing.simps [simp del]

definition trim_string :: "char list \<Rightarrow> char list" where
  "trim_string str =
     (let start = trim_leading str 0;
          str1 = (if start \<noteq> 0
                  then c_memcpy str (drop start str) (length (c_str (drop start str)) + 1)
                  else str);
          e = int (length (c_str str1)) - 1
      in trim_trailing str1 e)"

definition read_api_key :: "world \<Rightarrow> string option \<Rightarrow> char list option \<times> event list" where
  "read_api_key w file_path =
     (case read_file w file_path of
        (None, evs) \<Rightarrow> (None, evs)
      | (Some api_key, evs) \<Rightarrow> (Some (trim_string api_key), evs))"

subsection \<open>\<^verbatim>\<open>call_claude_api\<close> (lines 218-381)\<close>

text \<open>
  \<^verbatim>\<open>cJSON_AddStringToObject\<close>, \<^verbatim>\<open>cJSON_AddNumberToObject\<close> and
  \<^verbatim>\<open>cJSON_AddItemToObject\<close> at source line \<open>l\<close>: the member is appended, unless the
  library runs out of memory, which the code does not check.
\<close>

definition cJSON_AddToObject ::
  "world \<Rightarrow> nat \<Rightarrow> (string \<times> cJSON) list \<Rightarrow> string \<Rightarrow> cJSON \<Rightarrow> (string \<times> cJSON) list" where
  "cJSON_AddToObject w l object name item =
     (if lib_ok w l then object @ [(name, item)] else object)"

definition content_template :: string where
  "content_template =
     ''Here is my profile:\<newline>\<newline>%s\<newline>\<newline>Here is a git diff that needs review:\<newline>\<newline>%s\<newline>\<newline>Please provide a concise title and description of the changes.''"

text \<open>
  Lines 264-279, the message content: \<open>Inr None\<close> where \<^verbatim>\<open>malloc\<close> fails.
  \<open>content_len\<close> is an \<^verbatim>\<open>int\<close>, and so is \<open>content_len + 1\<close> at lines 270 and 279:
  when the rendering is exactly \<open>INT_MAX\<close> bytes long that sum overflows, which is
  undefined. When \<^verbatim>\<open>snprintf\<close> reports an error at line 268, \<open>content_len + 1\<close> is 0,
  nothing is written to \<open>content\<close>, and line 282 reads it as a string.

  Lines 226-297, the payload: the result is \<open>Inr (None, evs)\<close> where the code returns
  \<^verbatim>\<open>NULL\<close> before the transfer, and \<open>Inr (Some json_string, [])\<close> otherwise.
\<close>

definition render_content :: "world \<Rightarrow> string \<Rightarrow> string \<Rightarrow> fault + string option" where
  "render_content w profile git_diff =
     (let content_len = snprintf_returns content_template [profile, git_diff] in
      if content_len = int INT_MAX then Inl Undefined_behaviour
      else if \<not> alloc_ok w 270 (nat (content_len + 1)) then Inr None
      else if content_len < 0 then Inl Undefined_behaviour
      else Inr (Some (snprintf_stored (nat (content_len + 1)) content_template
                        [profile, git_diff])))"

definition build_payload ::
  "world \<Rightarrow> string \<Rightarrow> string \<Rightarrow> fault + (string option \<times> event list)" where
  "build_payload w profile git_diff =
     (if \<not> alloc_ok w 226 1
      then Inr (None, [Print Stderr ''Error: Initial memory allocation failed\<newline>'' []])
      else if \<not> lib_ok w 235
      then Inr (None, [Print Stderr ''Error: Failed to create JSON object\<newline>'' []])
      else
        let root0 = cJSON_AddToObject w 242 [] ''model''
                      (JString (Some ''claude-3-7-sonnet-20250219''));
            root1 = cJSON_AddToObject w 243 root0 ''max_tokens'' (JNumber 1024);
            root2 = cJSON_AddToObject w 244 root1 ''temperature'' (JNumber (1 / 2))
        in
        if \<not> lib_ok w 246
        then Inr (None, [Print Stderr ''Error: Failed to create JSON array\<newline>'' []])
        else if \<not> lib_ok w 254
        then Inr (None,
                  [Print Stderr ''Error: Failed to create JSON message object\<newline>'' []])
        else
          let message0 = cJSON_AddToObject w 262 [] ''role'' (JString (Some ''user'')) in
          case render_content w profile git_diff of
            Inl f \<Rightarrow> Inl f
          | Inr None \<Rightarrow>
              Inr (None,
                   [Print Stderr
                      ''Error: Memory allocation failed for content string\<newline>'' []])
          | Inr (Some content) \<Rightarrow>
              let message = cJSON_AddToObject w 282 message0 ''content''
                              (JString (Some content));
                  messages = JArray [JObject message];
                  root3 = cJSON_AddToObject w 284 root2 ''messages'' messages
              in
              if \<not> lib_ok w 286
              then Inr (None,
                        [Print Stderr ''Error: Failed to convert JSON to string\<newline>'' []])
              else Inr (Some (cJSON_Print w (JObject root3)), []))"

text \<open>
  \<^verbatim>\<open>curl_slist_append\<close> at source line \<open>l\<close>: the list with one more string, or
  \<^verbatim>\<open>NULL\<close>.
\<close>

definition curl_slist_append ::
  "world \<Rightarrow> nat \<Rightarrow> string list option \<Rightarrow> string \<Rightarrow> string list option" where
  "curl_slist_append w l list s =
     (if lib_ok w l then Some ((case list of None \<Rightarrow> [] | Some ss \<Rightarrow> ss) @ [s]) else None)"

text \<open>Lines 315-316: the header is formatted into a block of 512 bytes.\<close>

definition auth_header :: "string \<Rightarrow> string" where
  "auth_header api_key = snprintf_stored 512 ''x-api-key: %s'' [api_key]"

definition make_request :: "world \<Rightarrow> string \<Rightarrow> string \<Rightarrow> http_request" where
  "make_request w api_key json_string =
     (let headers0 = curl_slist_append w 313 None ''Content-Type: application/json'';
          headers1 = curl_slist_append w 317 headers0 (auth_header api_key);
          headers2 = curl_slist_append w 318 headers1 ''anthropic-version: 2023-06-01''
      in \<lparr>url = ''https://api.anthropic.com/v1/messages'', headers = headers2,
          postfields = json_string, timeout = 120, connecttimeout = 10\<rparr>)"

text \<open>
  The library hands the chunks of the body to the callback one after the other, as
  \<open>nmemb\<close> items of size 1, and gives the transfer up when the callback returns
  another count than it was given. The boolean tells whether all chunks were taken.
\<close>

fun deliver ::
  "world \<Rightarrow> MemoryStruct \<Rightarrow> char list list \<Rightarrow> fault + (bool \<times> MemoryStruct \<times> event list)" where
  "deliver w mem [] = Inr (True, mem, [])"
| "deliver w mem (c # cs) =
     (case WriteMemoryCallback w c 1 (length c) mem of
        Inl f \<Rightarrow> Inl f
      | Inr (taken, mem', evs) \<Rightarrow>
          if taken \<noteq> length c then Inr (False, mem', evs)
          else (case deliver w mem' cs of
                  Inl f \<Rightarrow> Inl f
                | Inr (done, mem'', evs') \<Rightarrow> Inr (done, mem'', evs @ evs')))"

definition CURLE_WRITE_ERROR :: nat where
  "CURLE_WRITE_ERROR = 23"

text \<open>
  Lines 299-380, from the payload on. Line 360 (\<^verbatim>\<open>str_duplicate\<close>) and line 364
  (\<^verbatim>\<open>fprintf\<close> with \<^verbatim>\<open>%s\<close>) read the accumulated block as a string, which is
  undefined when the block holds no terminator.
\<close>

definition transfer_and_collect ::
  "world \<Rightarrow> string \<Rightarrow> string \<Rightarrow> fault + (string option \<times> event list)" where
  "transfer_and_collect w api_key json_string =
     (let chunk0 = \<lparr>memory = c_malloc w 1, size_bytes = 0\<rparr> in
      if \<not> lib_ok w 301
      then Inr (None, [Print Stderr ''Error: Failed to initialize cURL\<newline>'' []])
      else
        let request = make_request w api_key json_string;
            t = perform w request
        in
        case deliver w chunk0 (chunks t) of
          Inl f \<Rightarrow> Inl f
        | Inr (done, chunk, evs) \<Rightarrow>
            let res = (if done then curl_code t else CURLE_WRITE_ERROR) in
            if res \<noteq> 0
            then Inr (None,
                      Http_Post request # evs @
                      [Print Stderr ''Error: cURL request failed: %s\<newline>'' [Strerror res]])
            else if 200 \<le> http_code t \<and> http_code t < 300
            then
              if \<not> terminated (memory chunk) then Inl Undefined_behaviour
              else Inr (str_duplicate w 360 (Some (c_str (memory chunk))),
                        Http_Post request # evs)
            else if \<not> terminated (memory chunk) then Inl Undefined_behaviour
            else Inr (None,
                      Http_Post request # evs @
                      [Print Stderr ''Error: API request failed with HTTP code %ld\<newline>''
                         [Long (http_code t)],
                       Print Stderr ''Response: %s\<newline>'' [Str (Some (c_str (memory chunk)))]]))"

definition call_claude_api ::
  "world \<Rightarrow> string \<Rightarrow> string \<Rightarrow> string \<Rightarrow> fault + (string option \<times> event list)" where
  "call_claude_api w api_key profile git_diff =
     (case build_payload w profile git_diff of
        Inl f \<Rightarrow> Inl f
      | Inr (None, evs) \<Rightarrow> Inr (None, evs)
      | Inr (Some json_string, evs) \<Rightarrow>
          (case transfer_and_collect w api_key json_string of
             Inl f \<Rightarrow> Inl f
           | Inr (response, evs') \<Rightarrow> Inr (response, evs @ evs')))"

subsection \<open>\<^verbatim>\<open>save_results_to_file\<close> (lines 486-504)\<close>

definition save_results_to_file ::
  "world \<Rightarrow> string option \<Rightarrow> string option \<Rightarrow> string option \<Rightarrow> int \<times> event list" where
  "save_results_to_file w file_path title description =
     (case file_path of
        None \<Rightarrow> (0, [Print Stderr ''Error: Invalid parameters for saving results\<newline>'' []])
      | Some p \<Rightarrow>
          if title = None \<or> description = None
          then (0, [Print Stderr ''Error: Invalid parameters for saving results\<newline>'' []])
          else if \<not> writable w p
          then (0, [Print Stderr ''Error: Failed to open output file: %s (%s)\<newline>''
                      [Str file_path, Errno]])
          else (1, [File_Write p ''# %s\<newline>\<newline>%s'' [Str title, Str description],
                    Print Stdout ''Results saved to: %s\<newline>'' [Str file_path]]))"

subsection \<open>\<^verbatim>\<open>display_help\<close> (lines 507-526)\<close>

definition display_help :: "string \<Rightarrow> event list" where
  \<open>display_help program_name =
     [Print Stdout ''Claude API Client for Git Diff Analysis\<newline>'' [],
      Print Stdout ''\<newline>Usage: %s [options] [git_diff]\<newline>'' [Str (Some program_name)],
      Print Stdout ''\<newline>Options:\<newline>'' [],
      Print Stdout ''  -h                Display this help message\<newline>'' [],
      Print Stdout ''  -k <file>         Path to file containing the API key\<newline>'' [],
      Print Stdout ''                    (default: ~/.config/claude/api_key.txt)\<newline>'' [],
      Print Stdout ''  -p <file>         Path to profile file\<newline>'' [],
      Print Stdout ''                    (default: ~/.config/claude/profile.txt)\<newline>'' [],
      Print Stdout ''  -d <file>         Read git diff from a file instead of command line\<newline>'' [],
      Print Stdout ''  -o <file>         Save results to the specified file\<newline>'' [],
      Print Stdout ''  -v                Enable verbose/debug output\<newline>'' [],
      Print Stdout ''\<newline>Examples:\<newline>'' [],
      Print Stdout ''  %s "$(git diff)"                            # Use defaults\<newline>''
        [Str (Some program_name)],
      Print Stdout ''  %s -k custom_key.txt "$(git diff)"         # Custom API key\<newline>''
        [Str (Some program_name)],
      Print Stdout ''  %s -p my_profile.txt "$(git diff)"         # Custom profile\<newline>''
        [Str (Some program_name)],
      Print Stdout ''  %s -d changes.diff                         # Read diff from file\<newline>''
        [Str (Some program_name)],
      Print Stdout ''  %s -o commit_message.md "$(git diff)"      # Save to file\<newline>''
        [Str (Some program_name)],
      Print Stdout ''\<newline>See README.md for more information.\<newline>'' []]\<close>

subsection \<open>\<^verbatim>\<open>main\<close> (lines 528-742)\<close>

text \<open>
  What \<^verbatim>\<open>getopt\<close> returns for the option string \<^verbatim>\<open>hk:p:d:o:v\<close>, call after call:
  an option, with its argument where it takes one, or \<^verbatim>\<open>?\<close> for anything else.
\<close>

datatype cli_opt =
    Opt_h
  | Opt_k string
  | Opt_p string
  | Opt_d string
  | Opt_o string
  | Opt_v
  | Opt_unknown

record settings =
  key_file_path :: "string option"
  profile_path :: "string option"
  git_diff_file_path :: "string option"
  output_file_path :: "string option"
  use_diff_file :: bool
  use_default_key :: bool
  use_default_profile :: bool
  debug_mode :: bool

definition initial_settings :: settings where
  "initial_settings =
     \<lparr>key_file_path = None, profile_path = None, git_diff_file_path = None,
      output_file_path = None, use_diff_file = False, use_default_key = True,
      use_default_profile = True, debug_mode = False\<rparr>"

text \<open>
  The loop of lines 541-569: \<open>Inl\<close> is a \<^verbatim>\<open>return\<close> from inside the loop, with the
  exit status and what was printed.
\<close>

fun parse_options ::
  "string \<Rightarrow> settings \<Rightarrow> cli_opt list \<Rightarrow> (int \<times> event list) + settings" where
  "parse_options argv0 s [] = Inr s"
| "parse_options argv0 s (Opt_h # opts) = Inl (0, display_help argv0)"
| "parse_options argv0 s (Opt_k optarg # opts) =
     parse_options argv0 (s\<lparr>key_file_path := Some optarg, use_default_key := False\<rparr>) opts"
| "parse_options argv0 s (Opt_p optarg # opts) =
     parse_options argv0 (s\<lparr>profile_path := Some optarg, use_default_profile := False\<rparr>) opts"
| "parse_options argv0 s (Opt_d optarg # opts) =
     parse_options argv0 (s\<lparr>git_diff_file_path := Some optarg, use_diff_file := True\<rparr>) opts"
| "parse_options argv0 s (Opt_o optarg # opts) =
     parse_options argv0 (s\<lparr>output_file_path := Some optarg\<rparr>) opts"
| "parse_options argv0 s (Opt_v # opts) = parse_options argv0 (s\<lparr>debug_mode := True\<rparr>) opts"
| "parse_options argv0 s (Opt_unknown # opts) =
     Inl (1, Print Stderr ''Unknown option: %c\<newline>'' [Chr 63] # display_help argv0)"

text \<open>
  Lines 705-741: the request, the parse and the output. \<open>title\<close> and \<open>description\<close>
  are \<^verbatim>\<open>NULL\<close> before the parse. The function's last statement is \<^verbatim>\<open>return 0\<close>.
\<close>

definition run_request ::
  "world \<Rightarrow> settings \<Rightarrow> string \<Rightarrow> string \<Rightarrow> string \<Rightarrow> fault + (int \<times> event list)" where
  "run_request w s api_key profile git_diff_content =
     (case call_claude_api w api_key profile git_diff_content of
        Inl f \<Rightarrow> Inl f
      | Inr (None, evs) \<Rightarrow>
          Inr (1, Print Stdout ''Sending request to Anthropic API...\<newline>'' [] # evs @
                  [Print Stderr ''Failed to get response from Claude API\<newline>'' []])
      | Inr (Some response, evs) \<Rightarrow>
          (case parse_claude_response w (Some response) None None of
             (ret, title, description, pevs) \<Rightarrow>
               if ret \<noteq> 0
               then
                 Inr (0, Print Stdout ''Sending request to Anthropic API...\<newline>'' [] # evs @ pevs @
                         [Print Stdout ''TITLE: %s\<newline>\<newline>'' [Str title],
                          Print Stdout ''DESCRIPTION:\<newline>%s\<newline>'' [Str description]] @
                         (case output_file_path s of
                            None \<Rightarrow> []
                          | Some p \<Rightarrow> snd (save_results_to_file w (Some p) title description)))
               else
                 Inr (0, Print Stdout ''Sending request to Anthropic API...\<newline>'' [] # evs @ pevs @
                         [Print Stderr ''Failed to parse Claude's response\<newline>'' []])))"

text \<open>
  Lines 571-703, after the options: \<open>args\<close> are the arguments that are not options
  (\<^verbatim>\<open>argv[optind]\<close> and what follows).
\<close>

definition main_after_options ::
  "world \<Rightarrow> string \<Rightarrow> settings \<Rightarrow> string list \<Rightarrow> fault + (int \<times> event list)" where
  "main_after_options w argv0 s args =
     (let git_diff = (if args \<noteq> [] \<and> \<not> use_diff_file s then Some (hd args) else None) in
      case (if use_default_key s then get_default_api_key_path w else (key_file_path s, [])) of
        (None, evs) \<Rightarrow>
          if use_default_key s
          then Inr (1, evs @
                       [Print Stderr ''Error: Failed to determine default API key path\<newline>'' []])
          else Inr (1, [Print Stderr ''Error: API key file not found at %s\<newline>'' [Str None],
                        Print Stderr
                          ''Create it first or specify a key file with -k option\<newline>'' []])
      | (Some key_path, evs) \<Rightarrow>
          if \<not> file_exists w (Some key_path)
          then Inr (1, [Print Stderr ''Error: API key file not found at %s\<newline>''
                          [Str (Some key_path)],
                        Print Stderr
                          ''Create it first or specify a key file with -k option\<newline>'' []])
          else
            (case (if use_default_profile s then get_default_profile_path w
                   else (profile_path s, [])) of
               (None, evs) \<Rightarrow>
                 if use_default_profile s
                 then Inr (1, evs @
                              [Print Stderr
                                 ''Error: Failed to determine default profile path\<newline>'' []])
                 else Inr (1, [Print Stderr ''Error: Profile file not found at %s\<newline>''
                                 [Str None],
                               Print Stderr
                                 ''Create it first or specify a profile with -p option\<newline>''
                                 []])
             | (Some prof_path, evs) \<Rightarrow>
                 if \<not> file_exists w (Some prof_path)
                 then Inr (1, [Print Stderr ''Error: Profile file not found at %s\<newline>''
                                 [Str (Some prof_path)],
                               Print Stderr
                                 ''Create it first or specify a profile with -p option\<newline>''
                                 []])
                 else if git_diff = None \<and> \<not> use_diff_file s
                 then Inr (1, Print Stderr
                                ''Error: Git diff is required (either as an argument or via -d option)\<newline>''
                                [] # display_help argv0)
                 else
                   (case read_api_key w (Some key_path) of
                      (None, evs) \<Rightarrow> Inr (1, evs)
                    | (Some api_key, evs) \<Rightarrow>
                        (case read_file w (Some prof_path) of
                           (None, evs) \<Rightarrow> Inr (1, evs)
                         | (Some profile, evs) \<Rightarrow>
                             if use_diff_file s
                             then
                               (case read_file w (git_diff_file_path s) of
                                  (None, evs) \<Rightarrow> Inr (1, evs)
                                | (Some git_diff_content, evs) \<Rightarrow>
                                    run_request w s (c_str api_key) (c_str profile)
                                      (c_str git_diff_content))
                             else
                               (case str_duplicate w 682 git_diff of
                                  None \<Rightarrow>
                                    Inr (1, [Print Stderr
                                               ''Error: Memory allocation failed for git diff content\<newline>''
                                               []])
                                | Some git_diff_content \<Rightarrow>
                                    run_request w s (c_str api_key) (c_str profile)
                                      git_diff_content)))))"

text \<open>
  The program: \<open>argv0\<close> is its name, \<open>opts\<close> what \<^verbatim>\<open>getopt\<close> finds, \<open>args\<close> the
  remaining arguments. The result is the exit status and the events, in order.
\<close>

definition main :: "world \<Rightarrow> string \<Rightarrow> cli_opt list \<Rightarrow> string list \<Rightarrow> fault + (int \<times> event list)" where
  "main w argv0 opts args =
     (case parse_options argv0 initial_settings opts of
        Inl early \<Rightarrow> Inr early
      | Inr s \<Rightarrow> main_after_options w argv0 s args)"

subsection \<open>Reference definitions and sample worlds\<close>

text \<open>
  Removing white space at both ends, as a specification of \<^verbatim>\<open>trim_string\<close>: the
  leading and the trailing blanks, tabs, carriage returns and newlines go.
\<close>

definition trim_ws :: "string \<Rightarrow> string" where
  "trim_ws s = rev (dropWhile is_space (rev (dropWhile is_space s)))"


text \<open>
  The segmentation in the words of the specification, where a line ends at a newline:
  a blank line holds nothing but carriage returns before its newline. The leading blank
  lines are skipped; the title is the first line that is left, up to its newline, and
  the description is what follows that newline.
\<close>

function spec_skip_blank_lines :: "string \<Rightarrow> string" where
  "spec_skip_blank_lines t =
     (let r = dropWhile (\<lambda>c. c = CR) t in
      if r \<noteq> [] \<and> hd r = LF then spec_skip_blank_lines (tl r) else t)"
  by pat_completeness auto
termination
proof (relation "measure length")
  show "wf (measure length)"
    by simp
next
  fix t r :: string
  assume r: "r = dropWhile (\<lambda>c. c = CR) t" and ne: "r \<noteq> [] \<and> hd r = LF"
  have "length r \<le> length t"
    unfolding r by (rule length_dropWhile_le)
  moreover have "length (tl r) < length r"
    using ne by (cases r) simp_all
  ultimately show "(tl r, t) \<in> measure length"
    by simp
qed

declare spec_skip_blank_lines.simps [simp del]

definition spec_title :: "string \<Rightarrow> string" where
  "spec_title t = takeWhile (\<lambda>c. c \<noteq> LF) (spec_skip_blank_lines t)"

definition spec_description :: "string \<Rightarrow> string" where
  "spec_description t = tl (dropWhile (\<lambda>c. c \<noteq> LF) (spec_skip_blank_lines t))"



text \<open>The events that only print.\<close>

fun is_print :: "event \<Rightarrow> bool" where
  "is_print (Print _ _ _) = True"
| "is_print _ = False"

text \<open>The reply \<^verbatim>\<open>{"content": [{"text": t}]}\<close> as the library parses it.\<close>

definition reply_with_text :: "string \<Rightarrow> cJSON" where
  \<open>reply_with_text t = JObject [(''content'', JArray [JObject [(''text'', JString (Some t))]])]\<close>

text \<open>
  A world in which memory never runs out, fresh memory holds the byte \<^verbatim>\<open>#\<close>, the home
  directory is \<^verbatim>\<open>/home/u\<close> and holds a key file and a profile, a second key file
  holds 501 letters, every body parses to \<open>reply\<close>, and every transfer is \<open>t\<close>.
\<close>

definition sample_files :: "string \<Rightarrow> fs_entry" where
  "sample_files p =
     (if p = ''/home/u/.config/claude/api_key.txt'' then Content ''  sk-key\<newline>''
      else if p = ''/home/u/.config/claude/profile.txt'' then Content ''I write C.''
      else if p = ''/tmp/long_key.txt'' then Content (replicate 501 (CHR ''a''))
      else No_File)"

definition sample_world :: "cJSON option \<Rightarrow> transfer \<Rightarrow> world" where
  "sample_world reply t =
     \<lparr>alloc_ok = (\<lambda>l n. True), fresh = (\<lambda>i. CHR ''#''), lib_ok = (\<lambda>l. True),
      cJSON_Parse = (\<lambda>r. reply), cJSON_GetErrorPtr = (\<lambda>r. Some r),
      cJSON_Print = (\<lambda>j. ''{}''),
      perform = (\<lambda>req. t), getenv_HOME = Some ''/home/u'', pw_dir = None,
      files = sample_files, writable = (\<lambda>p. True)\<rparr>"

definition sample_transfer :: "char list list \<Rightarrow> int \<Rightarrow> transfer" where
  "sample_transfer cs status = \<lparr>chunks = cs, curl_code = 0, http_code = status\<rparr>"

section \<open>Properties of the parser\<close>

lemma skip_empty_lines_eq:
  "skip_empty_lines t i = i + length (takeWhile (\<lambda>c. c = LF \<or> c = CR) (drop i t))"
proof (induction t i rule: skip_empty_lines.induct)
  case (1 t i)
  show ?case
  proof (cases "i < length t \<and> (t ! i = LF \<or> t ! i = CR)")
    case True
    then have d: "drop i t = t ! i # drop (Suc i) t"
      by (simp add: Cons_nth_drop_Suc)
    from True 1 show ?thesis
      by (subst skip_empty_lines.simps) (auto simp: d)
  next
    case False
    show ?thesis
    proof (cases "i < length t")
      case True
      then have d: "drop i t = t ! i # drop (Suc i) t"
        by (simp add: Cons_nth_drop_Suc)
      from False True show ?thesis
        by (subst skip_empty_lines.simps) (auto simp: d)
    next
      case False
      then show ?thesis
        by (subst skip_empty_lines.simps) simp
    qed
  qed
qed

lemma drop_skip_empty_lines:
  "drop (skip_empty_lines t 0) t = dropWhile (\<lambda>c. c = LF \<or> c = CR) t"
  by (simp add: skip_empty_lines_eq dropWhile_eq_drop)

lemma c_strchr_eq:
  "c_strchr s c = (if c \<in> set s then Some (length (takeWhile (\<lambda>x. x \<noteq> c) s)) else None)"
  by (induction s) auto

lemma c_str_append_NUL: "NUL \<notin> set xs \<Longrightarrow> c_str (xs @ NUL # ys) = xs"
  unfolding c_str_def by (induction xs) auto

lemma str_duplicate_Some:
  "alloc_ok w l (length s + 1) \<Longrightarrow> NUL \<notin> set s \<Longrightarrow> str_duplicate w l (Some s) = Some s"
  by (simp add: str_duplicate_def c_memcpy_def c_malloc_def c_str_append_NUL)

lemma title_block:
  "NUL \<notin> set s \<Longrightarrow> k \<le> length s \<Longrightarrow>
   c_str ((c_strncpy (c_malloc w (k + 1)) s k)[k := NUL]) = take k s"
proof -
  assume a: "NUL \<notin> set s" "k \<le> length s"
  have "c_strncpy (c_malloc w (k + 1)) s k = take k s @ [fresh w k]"
    using a by (simp add: c_strncpy_def c_malloc_def)
  then have "(c_strncpy (c_malloc w (k + 1)) s k)[k := NUL] = take k s @ [NUL]"
    using a by (simp add: list_update_append)
  moreover have "NUL \<notin> set (take k s)"
    using a by (meson in_set_takeD)
  ultimately show ?thesis
    by (simp add: c_str_append_NUL)
qed

lemma description_block:
  "NUL \<notin> set s \<Longrightarrow>
   c_str ((c_strncpy (c_malloc w (length s + 2)) s (length s + 1))[length s + 1 := NUL]) = s"
proof -
  assume a: "NUL \<notin> set s"
  have "c_strncpy (c_malloc w (length s + 2)) s (length s + 1) = s @ [NUL] @ [fresh w (length s + 1)]"
    by (simp add: c_strncpy_def c_malloc_def)
  then show ?thesis using a
    by (simp add: c_str_append_NUL list_update_append)
qed

lemma str_duplicate_eq:
  "NUL \<notin> set s \<Longrightarrow>
   str_duplicate w l (Some s) = (if alloc_ok w l (length s + 1) then Some s else None)"
  by (simp add: str_duplicate_def c_memcpy_def c_malloc_def c_str_append_NUL)

text \<open>
  What lines 446-473 do with a text that holds a newline after its leading newlines and
  carriage returns: 0 when one of the two blocks is not allocated, the title and the
  description otherwise.
\<close>

lemma split_text_newline_cases:
  assumes nul: "NUL \<notin> set text_value"
    and lf: "LF \<in> set (dropWhile (\<lambda>c. c = LF \<or> c = CR) text_value)"
  shows "split_text w text_value =
           (let rest = dropWhile (\<lambda>c. c = LF \<or> c = CR) text_value;
                title = takeWhile (\<lambda>c. c \<noteq> LF) rest;
                description = tl (dropWhile (\<lambda>c. c \<noteq> LF) rest)
            in
            if \<not> alloc_ok w 449 (length title + 1)
            then (0, None, None,
                  [Print Stderr ''Error: Memory allocation failed for title\<newline>'' []])
            else if \<not> alloc_ok w 462 (length description + 2)
            then (0, None, None,
                  [Print Stderr ''Error: Memory allocation failed for description\<newline>'' []])
            else (1, Some title, Some description, []))"
proof -
  define rest where "rest = dropWhile (\<lambda>c. c = LF \<or> c = CR) text_value"
  define ls where "ls = skip_empty_lines text_value 0"
  define tw where "tw = takeWhile (\<lambda>c. c \<noteq> LF) rest"
  define d where "d = tl (dropWhile (\<lambda>c. c \<noteq> LF) rest)"
  define k where "k = length tw"
  have rest: "drop ls text_value = rest"
    by (simp add: ls_def rest_def drop_skip_empty_lines)
  have chr: "c_strchr rest LF = Some k"
    using lf by (simp add: c_strchr_eq rest_def k_def tw_def)
  have nul_rest: "NUL \<notin> set rest"
    using nul by (auto simp: rest_def dest: set_dropWhileD)
  have dw: "dropWhile (\<lambda>c. c \<noteq> LF) rest = LF # d"
  proof (cases "dropWhile (\<lambda>c. c \<noteq> LF) rest")
    case Nil
    then have "\<forall>x\<in>set rest. x \<noteq> LF"
      by (simp only: dropWhile_eq_Nil_conv)
    with lf show ?thesis
      unfolding rest_def by blast
  next
    case (Cons x xs)
    then have "x = LF"
      using hd_dropWhile [of "\<lambda>c. c \<noteq> LF" rest] by simp
    with Cons show ?thesis by (simp add: d_def)
  qed
  have split: "rest = tw @ LF # d"
    unfolding tw_def dw [symmetric] by simp
  have k_le: "k \<le> length rest"
    by (simp add: split k_def)
  have tk: "take k rest = tw"
    by (simp add: split k_def)
  have dk: "drop (Suc k) rest = d"
    by (simp add: split k_def)
  have "drop (Suc k) (drop ls text_value) = d"
    by (simp only: rest dk)
  then have dk': "drop (Suc (ls + k)) text_value = d"
    by (simp add: add.commute)
  have nul_d: "NUL \<notin> set d"
    using nul_rest by (simp add: split)
  have "length (drop ls text_value) = k + 1 + length d"
    by (simp only: rest) (simp add: split k_def)
  then have len: "length text_value - (ls + k) = length d + 1"
    by simp
  have title: "c_str ((c_strncpy (c_malloc w (k + 1)) rest k)[k := NUL]) = tw"
    using title_block [OF nul_rest k_le] tk by simp
  have desc: "c_str ((c_strncpy (c_malloc w (length d + 2)) d (length d + 1))[length d + 1 := NUL]) = d"
    using nul_d by (rule description_block)
  have "split_text w text_value =
          (if \<not> alloc_ok w 449 (k + 1)
           then (0, None, None,
                 [Print Stderr ''Error: Memory allocation failed for title\<newline>'' []])
           else if \<not> alloc_ok w 462 (length d + 2)
           then (0, None, None,
                 [Print Stderr ''Error: Memory allocation failed for description\<newline>'' []])
           else (1, Some tw, Some d, []))"
    unfolding split_text_def Let_def
    using chr title desc
    by (simp add: ls_def [symmetric] rest dk' len)
  then show ?thesis
    unfolding Let_def
    by (simp only: k_def tw_def d_def rest_def)
qed

lemma split_text_newline:
  assumes nul: "NUL \<notin> set text_value"
    and lf: "LF \<in> set (dropWhile (\<lambda>c. c = LF \<or> c = CR) text_value)"
    and a1: "alloc_ok w 449
               (length (takeWhile (\<lambda>c. c \<noteq> LF)
                          (dropWhile (\<lambda>c. c = LF \<or> c = CR) text_value)) + 1)"
    and a2: "alloc_ok w 462
               (length (tl (dropWhile (\<lambda>c. c \<noteq> LF)
                              (dropWhile (\<lambda>c. c = LF \<or> c = CR) text_value))) + 2)"
  shows "split_text w text_value =
           (1, Some (takeWhile (\<lambda>c. c \<noteq> LF) (dropWhile (\<lambda>c. c = LF \<or> c = CR) text_value)),
               Some (tl (dropWhile (\<lambda>c. c \<noteq> LF) (dropWhile (\<lambda>c. c = LF \<or> c = CR) text_value))),
               [])"
  using split_text_newline_cases [OF nul lf, of w] a1 a2
  by (simp add: Let_def)

lemma split_text_no_newline:
  assumes lf: "LF \<notin> set (dropWhile (\<lambda>c. c = LF \<or> c = CR) text_value)"
  shows "split_text w text_value =
           (1, str_duplicate w 477 (Some (dropWhile (\<lambda>c. c = LF \<or> c = CR) text_value)),
               str_duplicate w 478 (Some ''''), [])"
  unfolding split_text_def Let_def
  using lf by (simp add: drop_skip_empty_lines c_strchr_eq)

lemma sample_world_simps:
  "alloc_ok (sample_world reply t) l n"
  "lib_ok (sample_world reply t) l"
  "fresh (sample_world reply t) i = CHR ''#''"
  "cJSON_Parse (sample_world reply t) r = reply"
  "cJSON_GetErrorPtr (sample_world reply t) r = Some r"
  "cJSON_Print (sample_world reply t) j = ''{}''"
  "perform (sample_world reply t) req = t"
  "getenv_HOME (sample_world reply t) = Some ''/home/u''"
  "files (sample_world reply t) = sample_files"
  "writable (sample_world reply t) p"
  by (simp_all add: sample_world_def)

lemma dropWhile_blank_no_LF:
  "LF \<notin> set t \<Longrightarrow> dropWhile (\<lambda>c. c = LF \<or> c = CR) t = dropWhile (\<lambda>c. c = CR) t"
  by (induction t) auto

lemma dropWhile_blank_Nil:
  "dropWhile (\<lambda>c. c = LF \<or> c = CR) t = [] \<longleftrightarrow> set t \<subseteq> {LF, CR}"
  by (induction t) auto

lemma parse_reaches_text:
  assumes "cJSON_Parse w r = Some root_item"
    and "cJSON_GetObjectItem root_item ''content'' = Some (JArray (first_content # others))"
    and "cJSON_GetObjectItem first_content ''text'' = Some (JString (Some text_value))"
  shows "parse_claude_response w (Some r) t0 d0 =
           (case split_text w text_value of
              (ret, title, description, evs) \<Rightarrow> (ret, title, description, Json_Parse r # evs))"
  using assms by (simp add: parse_claude_response_def)

text \<open>
  The parse of a text that holds a newline after its leading newlines and carriage
  returns, when the two blocks are allocated.
\<close>

lemma parse_newline:
  assumes "cJSON_Parse w r = Some root_item"
    and "cJSON_GetObjectItem root_item ''content'' = Some (JArray (first_content # others))"
    and "cJSON_GetObjectItem first_content ''text'' = Some (JString (Some text_value))"
    and "NUL \<notin> set text_value"
    and "LF \<in> set (dropWhile (\<lambda>c. c = LF \<or> c = CR) text_value)"
    and "alloc_ok w 449
           (length (takeWhile (\<lambda>c. c \<noteq> LF)
                      (dropWhile (\<lambda>c. c = LF \<or> c = CR) text_value)) + 1)"
    and "alloc_ok w 462
           (length (tl (dropWhile (\<lambda>c. c \<noteq> LF)
                          (dropWhile (\<lambda>c. c = LF \<or> c = CR) text_value))) + 2)"
  shows "parse_claude_response w (Some r) t0 d0 =
           (1,
            Some (takeWhile (\<lambda>c. c \<noteq> LF) (dropWhile (\<lambda>c. c = LF \<or> c = CR) text_value)),
            Some (tl (dropWhile (\<lambda>c. c \<noteq> LF)
                        (dropWhile (\<lambda>c. c = LF \<or> c = CR) text_value))),
            [Json_Parse r])"
  using parse_reaches_text [OF assms(1-3)] split_text_newline [OF assms(4-7)]
  by simp

text \<open>
  The skip of the code, character by character, against the skip of whole blank lines:
  the code goes on through the carriage returns that start the first line that is not
  blank.
\<close>

lemma dropWhile_blank_after_CR:
  "dropWhile (\<lambda>c. c = LF \<or> c = CR) (dropWhile (\<lambda>c. c = CR) t) =
     dropWhile (\<lambda>c. c = LF \<or> c = CR) t"
  by (induction t) auto

lemma skip_refines_spec:
  "dropWhile (\<lambda>c. c = LF \<or> c = CR) t = dropWhile (\<lambda>c. c = CR) (spec_skip_blank_lines t)"
proof (induction t rule: spec_skip_blank_lines.induct)
  case (1 t)
  define r where "r = dropWhile (\<lambda>c. c = CR) t"
  have b: "dropWhile (\<lambda>c. c = LF \<or> c = CR) t = dropWhile (\<lambda>c. c = LF \<or> c = CR) r"
    unfolding r_def by (rule dropWhile_blank_after_CR [symmetric])
  show ?case
  proof (cases "r \<noteq> [] \<and> hd r = LF")
    case True
    then obtain xs where r: "r = LF # xs"
      by (cases r) auto
    have "dropWhile (\<lambda>c. c = LF \<or> c = CR) (tl r) =
            dropWhile (\<lambda>c. c = CR) (spec_skip_blank_lines (tl r))"
      using True by (intro "1.IH") (simp_all add: r_def)
    moreover have "spec_skip_blank_lines t = spec_skip_blank_lines (tl r)"
      using True by (subst spec_skip_blank_lines.simps) (simp add: r_def Let_def)
    ultimately show ?thesis
      by (simp add: b r)
  next
    case False
    have s: "spec_skip_blank_lines t = t"
      using False by (subst spec_skip_blank_lines.simps) (auto simp: r_def Let_def)
    have "dropWhile (\<lambda>c. c = LF \<or> c = CR) r = r"
    proof (cases r)
      case Nil
      then show ?thesis by simp
    next
      case (Cons x xs)
      then have "r \<noteq> []" by simp
      then have "dropWhile (\<lambda>c. c = CR) t \<noteq> []"
        by (simp add: r_def)
      then have "hd r \<noteq> CR"
        unfolding r_def by (rule hd_dropWhile)
      then show ?thesis
        using False Cons by simp
    qed
    then show ?thesis
      by (simp add: b s r_def)
  qed
qed

lemma LF_in_dropWhile_CR: "LF \<in> set (dropWhile (\<lambda>c. c = CR) s) \<longleftrightarrow> LF \<in> set s"
  by (induction s) auto

lemma takeWhile_after_CR:
  "takeWhile (\<lambda>c. c \<noteq> LF) (dropWhile (\<lambda>c. c = CR) s) =
     dropWhile (\<lambda>c. c = CR) (takeWhile (\<lambda>c. c \<noteq> LF) s)"
  by (induction s) auto

lemma dropWhile_LF_after_CR:
  "dropWhile (\<lambda>c. c \<noteq> LF) (dropWhile (\<lambda>c. c = CR) s) = dropWhile (\<lambda>c. c \<noteq> LF) s"
  by (induction s) auto

text \<open>
  C3, as stated, fails: the text of a carriage return, \<open>X\<close>, a newline and \<open>Y\<close>
  starts with a line that is not blank, so nothing is skipped and the first line up to
  its newline is the carriage return and \<open>X\<close>; the title of the code is \<open>X\<close>.
\<close>

theorem parse_title_and_description_counterexample:
  "spec_skip_blank_lines [CR, CHR ''X'', LF, CHR ''Y''] = [CR, CHR ''X'', LF, CHR ''Y''] \<and>
   spec_title [CR, CHR ''X'', LF, CHR ''Y''] = [CR, CHR ''X''] \<and>
   parse_claude_response
     (sample_world (Some (reply_with_text [CR, CHR ''X'', LF, CHR ''Y''])) (sample_transfer [] 200))
     (Some ''{}'') None None =
     (1, Some ''X'', Some ''Y'', [Json_Parse ''{}'']) \<and>
   ''X'' \<noteq> [CR, CHR ''X'']"
proof -
  have s: "spec_skip_blank_lines [CR, CHR ''X'', LF, CHR ''Y''] = [CR, CHR ''X'', LF, CHR ''Y'']"
    by (subst spec_skip_blank_lines.simps) simp
  have p: "parse_claude_response
     (sample_world (Some (reply_with_text [CR, CHR ''X'', LF, CHR ''Y''])) (sample_transfer [] 200))
     (Some ''{}'') None None =
     (1, Some ''X'', Some ''Y'', [Json_Parse ''{}''])"
    using parse_newline
      [of "sample_world (Some (reply_with_text [CR, CHR ''X'', LF, CHR ''Y''])) (sample_transfer [] 200)"
          "''{}''" "reply_with_text [CR, CHR ''X'', LF, CHR ''Y'']"
          "JObject [(''text'', JString (Some [CR, CHR ''X'', LF, CHR ''Y'']))]" "[]"
          "[CR, CHR ''X'', LF, CHR ''Y'']" None None]
    by (simp add: sample_world_simps reply_with_text_def)
  show ?thesis
    by (simp add: s p spec_title_def)
qed

text \<open>
  C3, amended. When the text, after its leading blank lines, still holds a newline, and
  the blocks for the title and the description are allocated, the parse succeeds; the
  title is the first line that is not blank, up to its newline, without the carriage
  returns that start it and with no other trimming; the description is everything after
  that newline. The text \<open>\<newline>\<newline>Fix bug\<newline>This patch fixes X\<close> gives the title
  \<open>Fix bug\<close> and the description \<open>This patch fixes X\<close>.
\<close>

theorem parse_title_and_description:
  assumes "cJSON_Parse w r = Some root_item"
    and "cJSON_GetObjectItem root_item ''content'' = Some (JArray (first_content # others))"
    and "cJSON_GetObjectItem first_content ''text'' = Some (JString (Some text_value))"
    and "NUL \<notin> set text_value"
    and "LF \<in> set (spec_skip_blank_lines text_value)"
    and "alloc_ok w 449 (length (dropWhile (\<lambda>c. c = CR) (spec_title text_value)) + 1)"
    and "alloc_ok w 462 (length (spec_description text_value) + 2)"
  shows "parse_claude_response w (Some r) t0 d0 =
           (1, Some (dropWhile (\<lambda>c. c = CR) (spec_title text_value)),
               Some (spec_description text_value), [Json_Parse r])"
proof -
  let ?rest = "dropWhile (\<lambda>c. c = LF \<or> c = CR) text_value"
  have rest: "?rest = dropWhile (\<lambda>c. c = CR) (spec_skip_blank_lines text_value)"
    by (rule skip_refines_spec)
  have t: "takeWhile (\<lambda>c. c \<noteq> LF) ?rest = dropWhile (\<lambda>c. c = CR) (spec_title text_value)"
    by (simp only: rest takeWhile_after_CR spec_title_def)
  have d: "tl (dropWhile (\<lambda>c. c \<noteq> LF) ?rest) = spec_description text_value"
    by (simp only: rest dropWhile_LF_after_CR spec_description_def)
  have lf: "LF \<in> set ?rest"
    using assms(5) by (simp only: rest LF_in_dropWhile_CR)
  have a1: "alloc_ok w 449 (length (takeWhile (\<lambda>c. c \<noteq> LF) ?rest) + 1)"
    using assms(6) by (simp only: t)
  have a2: "alloc_ok w 462 (length (tl (dropWhile (\<lambda>c. c \<noteq> LF) ?rest)) + 2)"
    using assms(7) by (simp only: d)
  have "parse_claude_response w (Some r) t0 d0 =
          (1, Some (takeWhile (\<lambda>c. c \<noteq> LF) ?rest),
              Some (tl (dropWhile (\<lambda>c. c \<noteq> LF) ?rest)), [Json_Parse r])"
    using assms(1-4) lf a1 a2 by (rule parse_newline)
  then show ?thesis
    by (simp only: t d)
qed

theorem parse_title_and_description_witness:
  "parse_claude_response
     (sample_world (Some (reply_with_text ''\<newline>\<newline>Fix bug\<newline>This patch fixes X''))
        (sample_transfer [] 200))
     (Some ''{}'') None None =
     (1, Some ''Fix bug'', Some ''This patch fixes X'', [Json_Parse ''{}''])"
proof -
  have s: "spec_skip_blank_lines ''\<newline>\<newline>Fix bug\<newline>This patch fixes X'' =
             ''Fix bug\<newline>This patch fixes X''"
    by (subst spec_skip_blank_lines.simps, simp, subst spec_skip_blank_lines.simps, simp,
        subst spec_skip_blank_lines.simps, simp)
  show ?thesis
    using parse_title_and_description
      [of "sample_world (Some (reply_with_text ''\<newline>\<newline>Fix bug\<newline>This patch fixes X''))
             (sample_transfer [] 200)"
          "''{}''" "reply_with_text ''\<newline>\<newline>Fix bug\<newline>This patch fixes X''"
          "JObject [(''text'', JString (Some ''\<newline>\<newline>Fix bug\<newline>This patch fixes X''))]" "[]"
          "''\<newline>\<newline>Fix bug\<newline>This patch fixes X''" None None]
    by (simp add: sample_world_simps reply_with_text_def s spec_title_def spec_description_def)
qed

text \<open>
  The parse of a text that holds no newline after its leading newlines and carriage
  returns: the return value is 1, and each of the two strings is the copy that
  \<^verbatim>\<open>str_duplicate\<close> returns, \<^verbatim>\<open>NULL\<close> when it is not allocated.
\<close>

lemma parse_no_newline_cases:
  assumes "cJSON_Parse w r = Some root_item"
    and "cJSON_GetObjectItem root_item ''content'' = Some (JArray (first_content # others))"
    and "cJSON_GetObjectItem first_content ''text'' = Some (JString (Some text_value))"
    and "NUL \<notin> set text_value"
    and "LF \<notin> set (dropWhile (\<lambda>c. c = LF \<or> c = CR) text_value)"
  shows "parse_claude_response w (Some r) t0 d0 =
           (1,
            (if alloc_ok w 477 (length (dropWhile (\<lambda>c. c = LF \<or> c = CR) text_value) + 1)
             then Some (dropWhile (\<lambda>c. c = LF \<or> c = CR) text_value) else None),
            (if alloc_ok w 478 1 then Some [] else None),
            [Json_Parse r])"
proof -
  let ?rest = "dropWhile (\<lambda>c. c = LF \<or> c = CR) text_value"
  have "split_text w text_value =
          (1, str_duplicate w 477 (Some ?rest), str_duplicate w 478 (Some []), [])"
    using assms(5) by (rule split_text_no_newline)
  moreover have "NUL \<notin> set ?rest"
    using assms(4) by (auto dest: set_dropWhileD)
  then have "str_duplicate w 477 (Some ?rest) =
               (if alloc_ok w 477 (length ?rest + 1) then Some ?rest else None)"
    by (rule str_duplicate_eq)
  moreover have "str_duplicate w 478 (Some []) = (if alloc_ok w 478 1 then Some [] else None)"
    using str_duplicate_eq [of "[]" w 478] by simp
  ultimately have "split_text w text_value =
                     (1, (if alloc_ok w 477 (length ?rest + 1) then Some ?rest else None),
                         (if alloc_ok w 478 1 then Some [] else None), [])"
    by (simp only:)
  then show ?thesis
    using parse_reaches_text [OF assms(1-3)] by simp
qed

lemma parse_no_newline:
  assumes "cJSON_Parse w r = Some root_item"
    and "cJSON_GetObjectItem root_item ''content'' = Some (JArray (first_content # others))"
    and "cJSON_GetObjectItem first_content ''text'' = Some (JString (Some text_value))"
    and "NUL \<notin> set text_value"
    and "LF \<notin> set (dropWhile (\<lambda>c. c = LF \<or> c = CR) text_value)"
    and "alloc_ok w 477 (length (dropWhile (\<lambda>c. c = LF \<or> c = CR) text_value) + 1)"
    and "alloc_ok w 478 1"
  shows "parse_claude_response w (Some r) t0 d0 =
           (1, Some (dropWhile (\<lambda>c. c = LF \<or> c = CR) text_value), Some [], [Json_Parse r])"
  using parse_no_newline_cases [OF assms(1-5), of t0 d0] assms(6,7) by simp

text \<open>
  C4, as stated, fails: a text without a newline that starts with a carriage return
  does not become the title as it is. Here the text is a carriage return and \<open>X\<close>,
  and the title is \<open>X\<close>.
\<close>

theorem parse_single_line_counterexample:
  "LF \<notin> set [CR, CHR ''X''] \<and>
   parse_claude_response
     (sample_world (Some (reply_with_text [CR, CHR ''X''])) (sample_transfer [] 200))
     (Some ''{}'') None None =
     (1, Some ''X'', Some [], [Json_Parse ''{}'']) \<and>
   ''X'' \<noteq> [CR, CHR ''X'']"
  using parse_no_newline
    [of "sample_world (Some (reply_with_text [CR, CHR ''X''])) (sample_transfer [] 200)"
        "''{}''" "reply_with_text [CR, CHR ''X'']"
        "JObject [(''text'', JString (Some [CR, CHR ''X'']))]" "[]" "[CR, CHR ''X'']" None None]
  by (simp add: sample_world_simps reply_with_text_def)

text \<open>
  C4, amended. For a text without any newline, when the copy of the title (line 477)
  and the copy of the description (line 478) are allocated, the parse succeeds; the
  title is the text without its leading carriage returns, and the description is empty.
\<close>

theorem parse_single_line:
  assumes "cJSON_Parse w r = Some root_item"
    and "cJSON_GetObjectItem root_item ''content'' = Some (JArray (first_content # others))"
    and "cJSON_GetObjectItem first_content ''text'' = Some (JString (Some text_value))"
    and "NUL \<notin> set text_value"
    and "LF \<notin> set text_value"
    and "alloc_ok w 477 (length (dropWhile (\<lambda>c. c = CR) text_value) + 1)"
    and "alloc_ok w 478 1"
  shows "parse_claude_response w (Some r) t0 d0 =
           (1, Some (dropWhile (\<lambda>c. c = CR) text_value), Some [], [Json_Parse r])"
proof -
  have eq: "dropWhile (\<lambda>c. c = LF \<or> c = CR) text_value = dropWhile (\<lambda>c. c = CR) text_value"
    using assms(5) by (rule dropWhile_blank_no_LF)
  have lf: "LF \<notin> set (dropWhile (\<lambda>c. c = LF \<or> c = CR) text_value)"
    using assms(5) by (auto dest: set_dropWhileD)
  have a: "alloc_ok w 477 (length (dropWhile (\<lambda>c. c = LF \<or> c = CR) text_value) + 1)"
    using assms(6) by (simp only: eq)
  have "parse_claude_response w (Some r) t0 d0 =
               (1, Some (dropWhile (\<lambda>c. c = LF \<or> c = CR) text_value), Some [],
                [Json_Parse r])"
    using assms(1-4) lf a assms(7) by (rule parse_no_newline)
  then show ?thesis
    by (simp only: eq)
qed

theorem parse_single_line_witness:
  "parse_claude_response
     (sample_world (Some (reply_with_text ''Only one line'')) (sample_transfer [] 200))
     (Some ''{}'') None None =
     (1, Some ''Only one line'', Some [], [Json_Parse ''{}''])"
  using parse_single_line
    [of "sample_world (Some (reply_with_text ''Only one line'')) (sample_transfer [] 200)"
        "''{}''" "reply_with_text ''Only one line''"
        "JObject [(''text'', JString (Some ''Only one line''))]" "[]"
        "''Only one line''" None None]
  by (simp add: sample_world_simps reply_with_text_def)

text \<open>
  C1, as stated, fails: the parse of the empty text succeeds, and the title is the empty
  string.
\<close>

theorem parse_title_nonempty_counterexample:
  "parse_claude_response
     (sample_world (Some (reply_with_text [])) (sample_transfer [] 200))
     (Some ''{}'') None None =
     (1, Some [], Some [], [Json_Parse ''{}''])"
  using parse_no_newline
    [of "sample_world (Some (reply_with_text [])) (sample_transfer [] 200)"
        "''{}''" "reply_with_text []"
        "JObject [(''text'', JString (Some []))]" "[]" "[]" None None]
  by (simp add: sample_world_simps reply_with_text_def)

text \<open>
  C1, amended. Whenever the parse of a text returns 1 and has stored a title, that title
  is empty exactly when the text has no other characters than newlines and carriage
  returns (the empty text among them): when the text has another character, the title
  is not empty. Nothing is assumed of the allocations.
\<close>

theorem parse_title_nonempty:
  assumes "cJSON_Parse w r = Some root_item"
    and "cJSON_GetObjectItem root_item ''content'' = Some (JArray (first_content # others))"
    and "cJSON_GetObjectItem first_content ''text'' = Some (JString (Some text_value))"
    and "NUL \<notin> set text_value"
    and "parse_claude_response w (Some r) t0 d0 = (1, Some title, description, evs)"
  shows "title = [] \<longleftrightarrow> set text_value \<subseteq> {LF, CR}"
proof -
  define rest where "rest = dropWhile (\<lambda>c. c = LF \<or> c = CR) text_value"
  have empty_iff: "rest = [] \<longleftrightarrow> set text_value \<subseteq> {LF, CR}"
    unfolding rest_def by (rule dropWhile_blank_Nil)
  show ?thesis
  proof (cases "LF \<in> set rest")
    case True
    have "split_text w text_value =
            (if \<not> alloc_ok w 449 (length (takeWhile (\<lambda>c. c \<noteq> LF) rest) + 1)
             then (0, None, None,
                   [Print Stderr ''Error: Memory allocation failed for title\<newline>'' []])
             else if \<not> alloc_ok w 462 (length (tl (dropWhile (\<lambda>c. c \<noteq> LF) rest)) + 2)
             then (0, None, None,
                   [Print Stderr ''Error: Memory allocation failed for description\<newline>'' []])
             else (1, Some (takeWhile (\<lambda>c. c \<noteq> LF) rest),
                      Some (tl (dropWhile (\<lambda>c. c \<noteq> LF) rest)), []))"
      using split_text_newline_cases [OF assms(4), of w] True
      by (simp add: rest_def Let_def)
    then have title: "title = takeWhile (\<lambda>c. c \<noteq> LF) rest"
      using parse_reaches_text [OF assms(1-3), of t0 d0] assms(5)
      by (simp split: if_splits)
    from True obtain x xs where cons: "rest = x # xs"
      by (cases rest) auto
    have "dropWhile (\<lambda>c. c = LF \<or> c = CR) text_value \<noteq> []"
      using cons by (simp add: rest_def)
    then have "\<not> (hd rest = LF \<or> hd rest = CR)"
      unfolding rest_def by (rule hd_dropWhile)
    then have "x \<noteq> LF"
      by (simp add: cons)
    then have "takeWhile (\<lambda>c. c \<noteq> LF) rest \<noteq> []"
      by (simp add: cons)
    moreover have "\<not> set text_value \<subseteq> {LF, CR}"
      using empty_iff cons by simp
    ultimately show ?thesis
      using title by simp
  next
    case False
    then have "parse_claude_response w (Some r) t0 d0 =
                 (1, (if alloc_ok w 477 (length rest + 1) then Some rest else None),
                     (if alloc_ok w 478 1 then Some [] else None), [Json_Parse r])"
      unfolding rest_def
      using assms(1-4) by (intro parse_no_newline_cases) auto
    then have "title = rest"
      using assms(5) by (simp split: if_splits)
    then show ?thesis
      using empty_iff by simp
  qed
qed

theorem parse_title_nonempty_witness:
  "parse_claude_response
     (sample_world (Some (reply_with_text ''\<newline>Add parser'')) (sample_transfer [] 200))
     (Some ''{}'') None None =
     (1, Some ''Add parser'', Some [], [Json_Parse ''{}'']) \<and>
   ((''Add parser'' = []) = (set ''\<newline>Add parser'' \<subseteq> {LF, CR}))"
proof -
  let ?w = "sample_world (Some (reply_with_text ''\<newline>Add parser'')) (sample_transfer [] 200)"
  have j: "cJSON_Parse ?w ''{}'' = Some (reply_with_text ''\<newline>Add parser'')"
    "cJSON_GetObjectItem (reply_with_text ''\<newline>Add parser'') ''content'' =
       Some (JArray (JObject [(''text'', JString (Some ''\<newline>Add parser''))] # []))"
    "cJSON_GetObjectItem (JObject [(''text'', JString (Some ''\<newline>Add parser''))]) ''text'' =
       Some (JString (Some ''\<newline>Add parser''))"
    "NUL \<notin> set ''\<newline>Add parser''"
    by (simp_all add: sample_world_simps reply_with_text_def)
  have p: "parse_claude_response ?w (Some ''{}'') None None =
             (1, Some ''Add parser'', Some [], [Json_Parse ''{}''])"
    using parse_no_newline [OF j, of None None]
    by (simp add: sample_world_simps)
  from parse_title_nonempty [OF j p] p show ?thesis
    by (simp only: simp_thms)
qed




section \<open>Properties of the accumulator\<close>

lemma c_realloc_length: "length (c_realloc w p n) = n"
  by (simp add: c_realloc_def)

lemma c_realloc_take: "k \<le> length p \<Longrightarrow> k \<le> n \<Longrightarrow> take k (c_realloc w p n) = take k p"
  by (simp add: c_realloc_def)

lemma WriteMemoryCallback_appends:
  assumes alloc: "\<And>n. alloc_ok w 48 n"
    and len: "sz * nmemb = length contents"
    and inv: "size_bytes mem \<le> length (memory mem)"
    and fits: "size_bytes mem + length contents + 1 < SIZE_MOD"
  shows "WriteMemoryCallback w contents sz nmemb mem =
           Inr (length contents,
                \<lparr>memory = take (size_bytes mem) (memory mem) @ contents @ [NUL],
                 size_bytes = size_bytes mem + length contents\<rparr>,
                [])"
proof -
  define s where "s = size_bytes mem"
  define n where "n = length contents"
  define ptr where "ptr = c_realloc w (memory mem) (Suc (s + n))"
  have realsize: "(sz * nmemb) mod SIZE_MOD = n"
    using fits len by (simp add: n_def)
  have request: "Suc (s + n) mod SIZE_MOD = Suc (s + n)"
    using fits by (simp add: s_def n_def)
  have lptr: "length ptr = Suc (s + n)"
    by (simp add: ptr_def c_realloc_length)
  define A where "A = take s (memory mem)"
  have tptr: "take s ptr = A"
    unfolding ptr_def A_def using inv by (intro c_realloc_take) (simp_all add: s_def)
  have lA: "length A = s"
    using inv by (simp add: A_def s_def)
  obtain z where dptr: "drop (s + n) ptr = [z]"
  proof -
    have "length (drop (s + n) ptr) = 1"
      by (simp add: lptr)
    then show ?thesis
      using that by (cases "drop (s + n) ptr") auto
  qed
  have "(A @ contents @ [z])[length A + length contents := NUL] = A @ contents @ [NUL]"
    by (simp add: list_update_append)
  then have upd: "(A @ contents @ [z])[s + n := NUL] = A @ contents @ [NUL]"
    by (simp only: lA n_def)
  have "take n contents = contents"
    by (simp add: n_def)
  then have "take s ptr @ take n contents @ drop (s + n) ptr = A @ contents @ [z]"
    by (simp only: tptr dptr)
  then have "(take s ptr @ take n contents @ drop (s + n) ptr)[s + n := NUL] =
          take s (memory mem) @ contents @ [NUL]"
    using upd by (simp only: A_def)
  then show ?thesis
    using alloc
    by (simp add: WriteMemoryCallback_def Let_def realsize request s_def [symmetric]
        ptr_def [symmetric] lptr n_def [symmetric])
qed

lemma deliver_appends:
  assumes alloc: "\<And>n. alloc_ok w 48 n"
    and inv: "size_bytes mem \<le> length (memory mem)"
    and fits: "size_bytes mem + length (concat cs) + 1 < SIZE_MOD"
  shows "deliver w mem cs =
           Inr (True,
                (if cs = [] then mem
                 else \<lparr>memory = take (size_bytes mem) (memory mem) @ concat cs @ [NUL],
                       size_bytes = size_bytes mem + length (concat cs)\<rparr>),
                [])"
  using inv fits
proof (induction cs arbitrary: mem)
  case Nil
  show ?case by simp
next
  case (Cons c cs)
  let ?mem' = "\<lparr>memory = take (size_bytes mem) (memory mem) @ c @ [NUL],
                 size_bytes = size_bytes mem + length c\<rparr>"
  have step: "WriteMemoryCallback w c 1 (length c) mem = Inr (length c, ?mem', [])"
    using alloc Cons.prems by (intro WriteMemoryCallback_appends) simp_all
  have inv': "size_bytes ?mem' \<le> length (memory ?mem')"
    using Cons.prems by simp
  have fits': "size_bytes ?mem' + length (concat cs) + 1 < SIZE_MOD"
    using Cons.prems by simp
  have rest: "deliver w ?mem' cs =
           Inr (True,
                (if cs = [] then ?mem'
                 else \<lparr>memory = take (size_bytes ?mem') (memory ?mem') @ concat cs @ [NUL],
                       size_bytes = size_bytes ?mem' + length (concat cs)\<rparr>),
                [])"
    using inv' fits' by (rule Cons.IH)
  have tk: "take (size_bytes mem + length c) (take (size_bytes mem) (memory mem) @ c @ [NUL]) =
              take (size_bytes mem) (memory mem) @ c"
    using Cons.prems(1) by simp
  show ?case
    using step rest tk by simp
qed

text \<open>
  From the buffer that \<^verbatim>\<open>call_claude_api\<close> starts with, any sequence of chunks that is
  not empty leaves the concatenation of the chunks and a terminator in the buffer.
\<close>

lemma deliver_from_start:
  assumes alloc: "\<And>n. alloc_ok w 48 n"
    and fits: "length (concat cs) + 1 < SIZE_MOD"
    and ne: "cs \<noteq> []"
  shows "deliver w \<lparr>memory = c_malloc w 1, size_bytes = 0\<rparr> cs =
           Inr (True, \<lparr>memory = concat cs @ [NUL], size_bytes = length (concat cs)\<rparr>, [])"
  using deliver_appends [of w "\<lparr>memory = c_malloc w 1, size_bytes = 0\<rparr>" cs] assms
  by simp

section \<open>Properties of the API key\<close>

lemma trim_leading_eq:
  assumes "NUL \<notin> set s" and "i \<le> length s"
  shows "trim_leading (s @ NUL # tail) i = i + length (takeWhile is_space (drop i s))"
  using assms
proof (induction "length s - i" arbitrary: i)
  case 0
  then have "i = length s" by simp
  then show ?case
    by (subst trim_leading.simps) simp
next
  case (Suc k)
  then have lt: "i < length s" by simp
  then have d: "drop i s = s ! i # drop (Suc i) s"
    by (simp add: Cons_nth_drop_Suc)
  have nth: "(s @ NUL # tail) ! i = s ! i"
    using lt by (simp add: nth_append)
  have nn: "s ! i \<noteq> NUL"
    using Suc.prems(1) lt by (metis nth_mem)
  show ?case
  proof (cases "is_space (s ! i)")
    case True
    have "trim_leading (s @ NUL # tail) (Suc i) =
            Suc i + length (takeWhile is_space (drop (Suc i) s))"
      using Suc.hyps Suc.prems lt by (intro Suc.hyps(1)) simp_all
    then show ?thesis
      using True lt nn by (subst trim_leading.simps) (simp add: nth d)
  next
    case False
    then show ?thesis
      using lt by (subst trim_leading.simps) (simp add: nth d)
  qed
qed

lemma trim_trailing_eq:
  assumes "NUL \<notin> set p" and "p = [] \<or> \<not> is_space (hd p)"
  shows "c_str (trim_trailing (p @ NUL # tail) (int (length p) - 1)) =
           rev (dropWhile is_space (rev p))"
  using assms
proof (induction p arbitrary: tail rule: rev_induct)
  case Nil
  show ?case
    by (subst trim_trailing.simps) (simp add: c_str_def)
next
  case (snoc x q)
  have nulq: "NUL \<notin> set q" and xn: "x \<noteq> NUL"
    using snoc.prems(1) by auto
  have nth: "((q @ [x]) @ NUL # tail) ! length q = x"
    by (simp add: nth_append)
  show ?case
  proof (cases "q \<noteq> [] \<and> is_space x")
    case True
    then have hdq: "q = [] \<or> \<not> is_space (hd q)"
      using snoc.prems(2) by (cases q) auto
    have upd: "((q @ [x]) @ NUL # tail)[length q := NUL] = q @ NUL # (NUL # tail)"
      by (simp add: list_update_append)
    have "c_str (trim_trailing (q @ NUL # (NUL # tail)) (int (length q) - 1)) =
            rev (dropWhile is_space (rev q))"
      using nulq hdq by (rule snoc.IH)
    then show ?thesis
      using True nth upd by (subst trim_trailing.simps) simp
  next
    case False
    have keep: "trim_trailing ((q @ [x]) @ NUL # tail) (int (length (q @ [x])) - 1) =
                  (q @ [x]) @ NUL # tail"
      using False nth by (subst trim_trailing.simps) auto
    have "\<not> is_space x"
    proof (cases "q = []")
      case True
      then show ?thesis using snoc.prems(2) by simp
    next
      case False
      then show ?thesis using \<open>\<not> (q \<noteq> [] \<and> is_space x)\<close> by simp
    qed
    then have "rev (dropWhile is_space (rev (q @ [x]))) = q @ [x]"
      by simp
    moreover have "c_str ((q @ [x]) @ NUL # tail) = q @ [x]"
      using snoc.prems(1) by (intro c_str_append_NUL)
    ultimately show ?thesis
      by (simp only: keep)
  qed
qed

lemma trim_string_eq:
  assumes nul: "NUL \<notin> set s"
  shows "c_str (trim_string (s @ NUL # tail)) = trim_ws s"
proof -
  define k where "k = length (takeWhile is_space s)"
  define s1 where "s1 = dropWhile is_space s"
  have start: "trim_leading (s @ NUL # tail) 0 = k"
    using trim_leading_eq [OF nul, of 0 tail] by (simp add: k_def)
  have k_le: "k \<le> length s"
    by (simp add: k_def length_takeWhile_le)
  have ds: "drop k s = s1"
    by (simp add: k_def s1_def dropWhile_eq_drop)
  have db: "drop k (s @ NUL # tail) = s1 @ NUL # tail"
    using k_le ds by simp
  have nul1: "NUL \<notin> set s1"
    using nul by (auto simp: s1_def dest: set_dropWhileD)
  have cs: "c_str (s1 @ NUL # tail) = s1"
    using nul1 by (rule c_str_append_NUL)
  have hd1: "s1 = [] \<or> \<not> is_space (hd s1)"
    unfolding s1_def by (metis hd_dropWhile)
  obtain tail1 where b1: "(if k \<noteq> 0
                  then c_memcpy (s @ NUL # tail) (s1 @ NUL # tail) (length s1 + 1)
                  else s @ NUL # tail) = s1 @ NUL # tail1"
  proof (cases "k = 0")
    case True
    then have "s1 = s"
      using ds by simp
    then show ?thesis
      using True that by simp
  next
    case False
    have "c_memcpy (s @ NUL # tail) (s1 @ NUL # tail) (length s1 + 1) =
            s1 @ NUL # drop (length s1 + 1) (s @ NUL # tail)"
      by (simp add: c_memcpy_def)
    then show ?thesis
      using False that by simp
  qed
  have "c_str (trim_trailing (s1 @ NUL # tail1) (int (length s1) - 1)) =
          rev (dropWhile is_space (rev s1))"
    using nul1 hd1 by (rule trim_trailing_eq)
  moreover have "c_str (s1 @ NUL # tail1) = s1"
    using nul1 by (rule c_str_append_NUL)
  ultimately have "c_str (trim_trailing (s1 @ NUL # tail1)
                      (int (length (c_str (s1 @ NUL # tail1))) - 1)) = trim_ws s"
    by (simp add: trim_ws_def s1_def)
  then show ?thesis
    unfolding trim_string_def Let_def
    by (simp only: start db cs b1)
qed

lemma read_file_Content:
  assumes "files w p = Content bytes" and "alloc_ok w 163 (length bytes + 1)"
  shows "read_file w (Some p) = (Some (bytes @ [NUL]), [])"
proof -
  have "c_memcpy (c_malloc w (length bytes + 1)) bytes (length bytes) =
          bytes @ [fresh w (length bytes)]"
    by (simp add: c_memcpy_def c_malloc_def)
  then have "(c_memcpy (c_malloc w (length bytes + 1)) bytes (length bytes))[length bytes := NUL] =
          bytes @ [NUL]"
    by (simp add: list_update_append)
  then show ?thesis
    using assms by (simp add: read_file_def Let_def)
qed

lemma block_split:
  "\<exists>tail. bytes @ [NUL] = takeWhile (\<lambda>c. c \<noteq> NUL) bytes @ NUL # tail"
proof (cases "NUL \<in> set bytes")
  case True
  then have "dropWhile (\<lambda>c. c \<noteq> NUL) bytes \<noteq> []"
    by simp
  then obtain x xs where d: "dropWhile (\<lambda>c. c \<noteq> NUL) bytes = x # xs"
    by (cases "dropWhile (\<lambda>c. c \<noteq> NUL) bytes") auto
  then have "x = NUL"
    using hd_dropWhile [of "\<lambda>c. c \<noteq> NUL" bytes] by simp
  then have "bytes = takeWhile (\<lambda>c. c \<noteq> NUL) bytes @ NUL # xs"
    using d takeWhile_dropWhile_id [of "\<lambda>c. c \<noteq> NUL" bytes] by simp
  then have "bytes @ [NUL] = takeWhile (\<lambda>c. c \<noteq> NUL) bytes @ NUL # (xs @ [NUL])"
    by (metis append_Cons append_assoc)
  then show ?thesis ..
next
  case False
  then have "takeWhile (\<lambda>c. c \<noteq> NUL) bytes = bytes"
    by (induction bytes) auto
  then have "bytes @ [NUL] = takeWhile (\<lambda>c. c \<noteq> NUL) bytes @ NUL # []"
    by (simp only:)
  then show ?thesis ..
qed

lemma c_str_read_block: "c_str (bytes @ [NUL]) = takeWhile (\<lambda>c. c \<noteq> NUL) bytes"
  unfolding c_str_def by (induction bytes) auto

lemma read_api_key_Content:
  assumes "files w p = Content bytes" and "alloc_ok w 163 (length bytes + 1)"
  shows "read_api_key w (Some p) = (Some (trim_string (bytes @ [NUL])), []) \<and>
         c_str (trim_string (bytes @ [NUL])) = trim_ws (takeWhile (\<lambda>c. c \<noteq> NUL) bytes)"
proof -
  obtain tail where t: "bytes @ [NUL] = takeWhile (\<lambda>c. c \<noteq> NUL) bytes @ NUL # tail"
    using block_split by blast
  have "NUL \<notin> set (takeWhile (\<lambda>c. c \<noteq> NUL) bytes)"
    by (auto dest: set_takeWhileD)
  then have "c_str (trim_string (takeWhile (\<lambda>c. c \<noteq> NUL) bytes @ NUL # tail)) =
          trim_ws (takeWhile (\<lambda>c. c \<noteq> NUL) bytes)"
    by (rule trim_string_eq)
  then show ?thesis
    using read_file_Content [OF assms] by (simp add: read_api_key_def t [symmetric])
qed

lemma c_format_one: "c_format (CHR ''%'' # CHR ''s'' # fmt) (a # as) = a @ c_format fmt as"
  by simp

lemma auth_header_eq: "auth_header api_key = ''x-api-key: '' @ take 500 api_key"
  by (simp add: auth_header_def snprintf_stored_def)

text \<open>
  C10, as stated, fails: of a key file that holds 501 letters and no white space, the
  header carries the first 500.
\<close>

theorem api_key_header_counterexample:
  "files (sample_world None (sample_transfer [] 200)) ''/tmp/long_key.txt'' =
     Content (replicate 501 (CHR ''a'')) \<and>
   trim_ws (replicate 501 (CHR ''a'')) = replicate 501 (CHR ''a'') \<and>
   map_option c_str
     (fst (read_api_key (sample_world None (sample_transfer [] 200)) (Some ''/tmp/long_key.txt''))) =
     Some (replicate 501 (CHR ''a'')) \<and>
   auth_header (replicate 501 (CHR ''a'')) = ''x-api-key: '' @ replicate 500 (CHR ''a'')"
proof -
  let ?w = "sample_world None (sample_transfer [] 200)"
  have f: "files ?w ''/tmp/long_key.txt'' = Content (replicate 501 (CHR ''a''))"
    by (simp add: sample_world_simps sample_files_def)
  have t: "trim_ws (replicate 501 (CHR ''a'')) = replicate 501 (CHR ''a'')"
    by (simp add: trim_ws_def is_space_def)
  have n: "takeWhile (\<lambda>c. c \<noteq> NUL) (replicate 501 (CHR ''a'')) = replicate 501 (CHR ''a'')"
    by (simp add: takeWhile_eq_all_conv)
  have "alloc_ok ?w 163 (length (replicate 501 (CHR ''a'')) + 1)"
    by (rule sample_world_simps)
  from read_api_key_Content [OF f this]
  have r: "map_option c_str (fst (read_api_key ?w (Some ''/tmp/long_key.txt''))) =
             Some (replicate 501 (CHR ''a''))"
    by (simp only: n t) simp
  have h: "auth_header (replicate 501 (CHR ''a'')) = ''x-api-key: '' @ replicate 500 (CHR ''a'')"
    by (simp add: auth_header_eq)
  from f t r h show ?thesis
    by (simp only: simp_thms)
qed

text \<open>
  C10, amended. The key in the \<open>x-api-key\<close> header is not the raw content of the key
  file: it is the first 500 bytes of the key text without its leading and trailing white
  space (space, tab, carriage return, newline), where the key text is the content of the
  file up to its first zero byte, which is the whole content when the file holds none.
\<close>

theorem api_key_header:
  assumes "files w p = Content bytes"
    and "alloc_ok w 163 (length bytes + 1)"
    and "\<And>l. lib_ok w l"
  shows "\<exists>api_key.
           read_api_key w (Some p) = (Some api_key, []) \<and>
           c_str api_key = trim_ws (takeWhile (\<lambda>c. c \<noteq> NUL) bytes) \<and>
           headers (make_request w (c_str api_key) json_string) =
             Some [''Content-Type: application/json'',
                   ''x-api-key: '' @ take 500 (trim_ws (takeWhile (\<lambda>c. c \<noteq> NUL) bytes)),
                   ''anthropic-version: 2023-06-01'']"
proof -
  have "headers (make_request w k json_string) =
          Some [''Content-Type: application/json'', ''x-api-key: '' @ take 500 k,
                ''anthropic-version: 2023-06-01'']" for k
    using assms(3) by (simp add: make_request_def curl_slist_append_def auth_header_eq)
  then show ?thesis
    using read_api_key_Content [OF assms(1,2)] by simp
qed

theorem api_key_header_witness:
  "\<exists>api_key.
     read_api_key (sample_world None (sample_transfer [] 200))
       (Some ''/home/u/.config/claude/api_key.txt'') = (Some api_key, []) \<and>
     c_str api_key = ''sk-key'' \<and>
     headers (make_request (sample_world None (sample_transfer [] 200)) (c_str api_key) ''{}'') =
       Some [''Content-Type: application/json'', ''x-api-key: sk-key'',
             ''anthropic-version: 2023-06-01'']"
  using api_key_header
    [of "sample_world None (sample_transfer [] 200)" "''/home/u/.config/claude/api_key.txt''"
        "''  sk-key\<newline>''" "''{}''"]
  by (simp add: sample_world_simps sample_files_def trim_ws_def is_space_def)

section \<open>Properties of the request\<close>

lemma content_template_rendering:
  "c_format content_template [profile, git_diff] =
     ''Here is my profile:\<newline>\<newline>'' @ profile @
     ''\<newline>\<newline>Here is a git diff that needs review:\<newline>\<newline>'' @ git_diff @
     ''\<newline>\<newline>Please provide a concise title and description of the changes.''"
  by (simp add: content_template_def)

lemma content_template_length:
  "length (c_format content_template [profile, git_diff]) =
     length profile + length git_diff + 126"
  by (simp add: content_template_rendering)

lemma render_content_eq:
  assumes "\<And>n. alloc_ok w 270 n"
    and "length profile + length git_diff + 126 < INT_MAX"
  shows "render_content w profile git_diff =
           Inr (Some (c_format content_template [profile, git_diff]))"
  using assms
  by (simp add: render_content_def snprintf_returns_def snprintf_stored_def Let_def
      content_template_length)

text \<open>
  At a rendering of exactly \<open>INT_MAX\<close> bytes, \<open>content_len + 1\<close> overflows.
\<close>

lemma render_content_overflow:
  assumes "length profile + length git_diff + 126 = INT_MAX"
  shows "render_content w profile git_diff = Inl Undefined_behaviour"
  using assms
  by (simp add: render_content_def snprintf_returns_def Let_def content_template_length)



lemma build_payload_eq:
  assumes "alloc_ok w 226 1"
    and "\<And>n. alloc_ok w 270 n"
    and "\<And>l. lib_ok w l"
    and "length profile + length git_diff + 126 < INT_MAX"
  shows "build_payload w profile git_diff =
           Inr (Some (cJSON_Print w
                  (JObject
                     [(''model'', JString (Some ''claude-3-7-sonnet-20250219'')),
                      (''max_tokens'', JNumber 1024),
                      (''temperature'', JNumber (1 / 2)),
                      (''messages'',
                       JArray
                         [JObject
                            [(''role'', JString (Some ''user'')),
                             (''content'',
                              JString (Some (c_format content_template [profile, git_diff])))]])])),
                [])"
  using assms(1,3) render_content_eq [OF assms(2,4)]
  by (simp add: build_payload_def cJSON_AddToObject_def Let_def)



section \<open>Properties of the transfer and of the program\<close>

lemma transfer_2xx:
  assumes alloc: "\<And>l n. alloc_ok w l n"
    and lib: "\<And>l. lib_ok w l"
    and t: "perform w (make_request w api_key json_string) = t"
    and ok: "curl_code t = 0"
    and status: "200 \<le> http_code t" "http_code t < 300"
    and ne: "chunks t \<noteq> []"
    and fits: "length (concat (chunks t)) + 1 < SIZE_MOD"
  shows "transfer_and_collect w api_key json_string =
           Inr (Some (takeWhile (\<lambda>c. c \<noteq> NUL) (concat (chunks t))),
                [Http_Post (make_request w api_key json_string)])"
proof -
  let ?body = "concat (chunks t)"
  have d: "deliver w \<lparr>memory = c_malloc w 1, size_bytes = 0\<rparr> (chunks t) =
             Inr (True, \<lparr>memory = ?body @ [NUL], size_bytes = length ?body\<rparr>, [])"
    using alloc fits ne by (intro deliver_from_start) auto
  have tmn: "terminated (?body @ [NUL])"
    by (simp add: terminated_def)
  have "NUL \<notin> set (takeWhile (\<lambda>c. c \<noteq> NUL) ?body)"
    by (auto dest: set_takeWhileD)
  then have dup: "str_duplicate w 360 (Some (takeWhile (\<lambda>c. c \<noteq> NUL) ?body)) =
                    Some (takeWhile (\<lambda>c. c \<noteq> NUL) ?body)"
    using alloc by (intro str_duplicate_Some) auto
  show ?thesis
    unfolding transfer_and_collect_def Let_def
    using lib ok status t d tmn dup
    by (simp add: c_str_read_block)
qed

lemma transfer_not_2xx:
  assumes alloc: "\<And>n. alloc_ok w 48 n"
    and lib: "lib_ok w 301"
    and t: "perform w (make_request w api_key json_string) = t"
    and ok: "curl_code t = 0"
    and status: "\<not> (200 \<le> http_code t \<and> http_code t < 300)"
    and ne: "chunks t \<noteq> []"
    and fits: "length (concat (chunks t)) + 1 < SIZE_MOD"
  shows "transfer_and_collect w api_key json_string =
           Inr (None,
                [Http_Post (make_request w api_key json_string),
                 Print Stderr ''Error: API request failed with HTTP code %ld\<newline>''
                   [Long (http_code t)],
                 Print Stderr ''Response: %s\<newline>''
                   [Str (Some (takeWhile (\<lambda>c. c \<noteq> NUL) (concat (chunks t))))]])"
proof -
  let ?body = "concat (chunks t)"
  have d: "deliver w \<lparr>memory = c_malloc w 1, size_bytes = 0\<rparr> (chunks t) =
             Inr (True, \<lparr>memory = ?body @ [NUL], size_bytes = length ?body\<rparr>, [])"
    using alloc fits ne by (intro deliver_from_start) auto
  have tmn: "terminated (?body @ [NUL])"
    by (simp add: terminated_def)
  show ?thesis
    unfolding transfer_and_collect_def Let_def
    using lib ok status t d tmn
    by (simp add: c_str_read_block)
qed

lemma transfer_no_response:
  assumes "\<not> (200 \<le> http_code (perform w (make_request w api_key json_string))
             \<and> http_code (perform w (make_request w api_key json_string)) < 300)"
  shows "transfer_and_collect w api_key json_string \<noteq> Inr (Some r, evs)"
  using assms
  by (auto simp: transfer_and_collect_def Let_def split: sum.splits prod.splits if_splits)

lemma call_no_response:
  assumes "\<And>req. \<not> (200 \<le> http_code (perform w req) \<and> http_code (perform w req) < 300)"
  shows "call_claude_api w api_key profile git_diff \<noteq> Inr (Some r, evs)"
proof
  assume c: "call_claude_api w api_key profile git_diff = Inr (Some r, evs)"
  then obtain js evs1 evs2 where
    "transfer_and_collect w api_key js = Inr (Some r, evs2)"
    by (auto simp: call_claude_api_def split: sum.splits prod.splits option.splits)
  then show False
    using transfer_no_response [of w api_key js r evs2] assms by blast
qed

lemma display_help_prints: "list_all is_print (display_help argv0)"
  by (simp add: display_help_def)

lemma parse_options_prints:
  "parse_options argv0 s opts = Inl (code, evs) \<Longrightarrow> list_all is_print evs"
  by (induction argv0 s opts rule: parse_options.induct) (auto simp: display_help_prints)

lemma get_default_api_key_path_prints:
  "get_default_api_key_path w = (x, evs) \<Longrightarrow> list_all is_print evs"
  by (auto simp: get_default_api_key_path_def get_home_dir_def Let_def
      split: option.splits if_splits)

lemma get_default_profile_path_prints:
  "get_default_profile_path w = (x, evs) \<Longrightarrow> list_all is_print evs"
  by (auto simp: get_default_profile_path_def get_home_dir_def Let_def
      split: option.splits if_splits)

lemma read_file_prints: "read_file w p = (x, evs) \<Longrightarrow> list_all is_print evs"
  by (auto simp: read_file_def Let_def split: option.splits fs_entry.splits if_splits)

lemma read_api_key_prints: "read_api_key w p = (x, evs) \<Longrightarrow> list_all is_print evs"
  by (auto simp: read_api_key_def split: prod.splits option.splits dest: read_file_prints)

lemma WriteMemoryCallback_prints:
  "WriteMemoryCallback w c sz n mem = Inr (k, mem', evs) \<Longrightarrow> list_all is_print evs"
  by (auto simp: WriteMemoryCallback_def Let_def split: if_splits)

lemma deliver_prints:
  "deliver w mem cs = Inr (b, mem', evs) \<Longrightarrow> list_all is_print evs"
proof (induction cs arbitrary: mem b mem' evs)
  case Nil
  then show ?case by simp
next
  case (Cons c cs)
  then show ?case
    by (auto split: sum.splits prod.splits if_splits dest: WriteMemoryCallback_prints)
qed

lemma build_payload_prints:
  "build_payload w p d = Inr (x, evs) \<Longrightarrow> list_all is_print evs"
  by (auto simp: build_payload_def Let_def split: if_splits sum.splits option.splits)

lemma transfer_events:
  "transfer_and_collect w k js = Inr (x, evs) \<Longrightarrow> Json_Parse r \<notin> set evs"
proof -
  assume a: "transfer_and_collect w k js = Inr (x, evs)"
  have np: "list_all is_print es \<Longrightarrow> Json_Parse r \<notin> set es" for es
    by (induction es) auto
  from a show ?thesis
    by (auto simp: transfer_and_collect_def Let_def
        split: if_splits sum.splits prod.splits dest!: deliver_prints np)
qed

lemma call_events:
  "call_claude_api w k p d = Inr (x, evs) \<Longrightarrow> Json_Parse r \<notin> set evs"
proof -
  assume a: "call_claude_api w k p d = Inr (x, evs)"
  have np: "list_all is_print es \<Longrightarrow> Json_Parse r \<notin> set es" for es
    by (induction es) auto
  from a show ?thesis
    by (auto simp: call_claude_api_def
        split: sum.splits prod.splits option.splits
        dest!: build_payload_prints transfer_events np)
qed

lemma prints_no_parse: "list_all is_print es \<Longrightarrow> Json_Parse r \<notin> set es"
  by (induction es) auto

lemma prints_no_post: "list_all is_print es \<Longrightarrow> Http_Post req \<notin> set es"
  by (induction es) auto

lemma run_request_no_response:
  assumes "\<And>k p d r evs. call_claude_api w k p d \<noteq> Inr (Some r, evs)"
    and "run_request w s api_key profile git_diff = Inr (code, evs)"
  shows "code = 1 \<and> Json_Parse r \<notin> set evs"
proof -
  from assms obtain evs1 where
    c: "call_claude_api w api_key profile git_diff = Inr (None, evs1)"
    and e: "evs = Print Stdout ''Sending request to Anthropic API...\<newline>'' [] # evs1 @
                  [Print Stderr ''Failed to get response from Claude API\<newline>'' []]"
    and "code = 1"
    by (auto simp: run_request_def split: sum.splits prod.splits option.splits)
  moreover have "Json_Parse r \<notin> set evs1"
    using c by (rule call_events)
  ultimately show ?thesis
    by simp
qed

lemma main_after_options_no_response:
  assumes never: "\<And>k p d r evs. call_claude_api w k p d \<noteq> Inr (Some r, evs)"
    and m: "main_after_options w argv0 s args = Inr (code, evs)"
  shows "code = 1 \<and> Json_Parse r \<notin> set evs"
proof -
  have rr: "run_request w s k p d = Inr (code, evs) \<Longrightarrow> code = 1 \<and> Json_Parse r \<notin> set evs"
    for k p d
    using never by (rule run_request_no_response)
  have h: "Json_Parse r \<notin> set (display_help argv0)"
    using display_help_prints by (rule prints_no_parse)
  from m show ?thesis
    unfolding main_after_options_def Let_def
    by (auto split: prod.splits option.splits if_splits
        dest: rr
        dest!: get_default_api_key_path_prints get_default_profile_path_prints
               read_file_prints read_api_key_prints prints_no_parse
        simp: h)
qed

lemma main_no_response:
  assumes never: "\<And>k p d r evs. call_claude_api w k p d \<noteq> Inr (Some r, evs)"
    and m: "main w argv0 opts args = Inr (code, evs)"
  shows "Json_Parse r \<notin> set evs \<and> (Http_Post req \<in> set evs \<longrightarrow> code = 1)"
proof (cases "parse_options argv0 initial_settings opts")
  case (Inl early)
  then have "list_all is_print evs"
    using m parse_options_prints [of argv0 initial_settings opts code evs]
    by (cases early) (simp add: main_def)
  then show ?thesis
    using prints_no_parse prints_no_post by blast
next
  case (Inr s)
  then have "main_after_options w argv0 s args = Inr (code, evs)"
    using m by (simp add: main_def)
  then show ?thesis
    using main_after_options_no_response [OF never] by blast
qed

lemma default_api_key_path:
  assumes "getenv_HOME w = Some home" and "\<And>n. alloc_ok w 117 n"
  shows "get_default_api_key_path w = (Some (home @ ''/.config/claude/api_key.txt''), [])"
  using assms
  by (simp add: get_default_api_key_path_def get_home_dir_def snprintf_stored_def)

lemma default_profile_path:
  assumes "getenv_HOME w = Some home" and "\<And>n. alloc_ok w 100 n"
  shows "get_default_profile_path w = (Some (home @ ''/.config/claude/profile.txt''), [])"
  using assms
  by (simp add: get_default_profile_path_def get_home_dir_def snprintf_stored_def)

text \<open>
  The run without options and with the diff as the one argument, when both default
  files are there: the program reaches the request with the trimmed key, the profile
  and the diff.
\<close>

lemma main_default_run:
  assumes home: "getenv_HOME w = Some home"
    and key: "files w (home @ ''/.config/claude/api_key.txt'') = Content kb"
    and prof: "files w (home @ ''/.config/claude/profile.txt'') = Content pb"
    and alloc: "\<And>l n. alloc_ok w l n"
    and nul: "NUL \<notin> set git_diff"
  shows "main w argv0 [] [git_diff] =
           run_request w initial_settings
             (trim_ws (takeWhile (\<lambda>c. c \<noteq> NUL) kb)) (takeWhile (\<lambda>c. c \<noteq> NUL) pb) git_diff"
proof -
  have kp: "get_default_api_key_path w = (Some (home @ ''/.config/claude/api_key.txt''), [])"
    using home alloc by (rule default_api_key_path)
  have pp: "get_default_profile_path w = (Some (home @ ''/.config/claude/profile.txt''), [])"
    using home alloc by (rule default_profile_path)
  have rk: "read_api_key w (Some (home @ ''/.config/claude/api_key.txt'')) =
              (Some (trim_string (kb @ [NUL])), [])"
    and ck: "c_str (trim_string (kb @ [NUL])) = trim_ws (takeWhile (\<lambda>c. c \<noteq> NUL) kb)"
    using read_api_key_Content [OF key alloc] by simp_all
  have rp: "read_file w (Some (home @ ''/.config/claude/profile.txt'')) = (Some (pb @ [NUL]), [])"
    using prof alloc by (rule read_file_Content)
  have dup: "str_duplicate w 682 (Some git_diff) = Some git_diff"
    using alloc nul by (rule str_duplicate_Some)
  have s0: "use_default_key initial_settings" "use_default_profile initial_settings"
    "\<not> use_diff_file initial_settings"
    by (simp_all add: initial_settings_def)
  show ?thesis
    unfolding main_def main_after_options_def Let_def
    using key prof
    by (simp add: s0 kp pp rk ck rp dup file_exists_def c_str_read_block)
qed

text \<open>
  Once \<^verbatim>\<open>call_claude_api\<close> has returned a response, the exit status is 0, whatever
  \<^verbatim>\<open>parse_claude_response\<close> returns.
\<close>

lemma run_request_status_after_response:
  assumes "call_claude_api w api_key profile git_diff = Inr (Some response, evs)"
  shows "\<exists>evs'. run_request w s api_key profile git_diff = Inr (0, evs')"
  using assms by (simp add: run_request_def split: prod.splits)

text \<open>
  C2 fails on the code. In the sample world the transfer succeeds with status 200 and the
  body \<open>not json\<close>, which the library does not parse: \<^verbatim>\<open>parse_claude_response\<close>
  returns 0, the program prints that it failed to parse the response, and its exit
  status is 0. Every other failure of \<^verbatim>\<open>main\<close> returns 1.
\<close>

theorem exit_status_after_parse_error:
  "fst (parse_claude_response (sample_world None (sample_transfer [''not json''] 200))
          (Some ''not json'') None None) = 0 \<and>
   main (sample_world None (sample_transfer [''not json''] 200)) ''git-commit-ai'' [] [''+x''] =
     Inr (0,
          [Print Stdout ''Sending request to Anthropic API...\<newline>'' [],
           Http_Post (make_request (sample_world None (sample_transfer [''not json''] 200))
                        ''sk-key'' ''{}''),
           Json_Parse ''not json'',
           Print Stderr ''Error: JSON parsing failed near: %s\<newline>'' [Str (Some ''not json'')],
           Print Stderr ''Failed to parse Claude's response\<newline>'' []])"
proof -
  let ?t = "sample_transfer [''not json''] 200"
  let ?w = "sample_world None ?t"
  have p: "parse_claude_response ?w (Some ''not json'') None None =
             (0, None, None,
              [Json_Parse ''not json'', Print Stderr ''Error: JSON parsing failed near: %s\<newline>'' [Str (Some ''not json'')]])"
    by (simp add: parse_claude_response_def sample_world_simps)
  have b: "build_payload ?w ''I write C.'' ''+x'' = Inr (Some ''{}'', [])"
    using build_payload_eq [of ?w "''I write C.''" "''+x''"]
    by (simp add: sample_world_simps INT_MAX_def)
  have "transfer_and_collect ?w ''sk-key'' ''{}'' =
          Inr (Some (takeWhile (\<lambda>c. c \<noteq> NUL) (concat (chunks ?t))),
               [Http_Post (make_request ?w ''sk-key'' ''{}'')])"
    by (rule transfer_2xx)
      (simp_all add: sample_world_simps sample_transfer_def SIZE_MOD_def)
  then have t: "transfer_and_collect ?w ''sk-key'' ''{}'' =
          Inr (Some ''not json'', [Http_Post (make_request ?w ''sk-key'' ''{}'')])"
    by (simp add: sample_transfer_def)
  have c: "call_claude_api ?w ''sk-key'' ''I write C.'' ''+x'' =
             Inr (Some ''not json'', [Http_Post (make_request ?w ''sk-key'' ''{}'')])"
    by (simp add: call_claude_api_def b t)
  have r: "run_request ?w initial_settings ''sk-key'' ''I write C.'' ''+x'' =
             Inr (0,
                  [Print Stdout ''Sending request to Anthropic API...\<newline>'' [],
                   Http_Post (make_request ?w ''sk-key'' ''{}''),
                   Json_Parse ''not json'',
                   Print Stderr ''Error: JSON parsing failed near: %s\<newline>'' [Str (Some ''not json'')],
                   Print Stderr ''Failed to parse Claude's response\<newline>'' []])"
    by (simp add: run_request_def c p)
  have "main ?w ''git-commit-ai'' [] [''+x''] =
          run_request ?w initial_settings
            (trim_ws (takeWhile (\<lambda>c. c \<noteq> NUL) ''  sk-key\<newline>''))
            (takeWhile (\<lambda>c. c \<noteq> NUL) ''I write C.'') ''+x''"
    by (rule main_default_run [where home = "''/home/u''"])
      (simp_all add: sample_world_simps sample_files_def)
  then have "main ?w ''git-commit-ai'' [] [''+x''] =
               run_request ?w initial_settings ''sk-key'' ''I write C.'' ''+x''"
    by (simp add: trim_ws_def is_space_def)
  with r p show ?thesis
    by simp
qed

text \<open>
  When the transfer completes with a status outside 200-299 and a body of at least one
  chunk, \<^verbatim>\<open>call_claude_api\<close> returns \<^verbatim>\<open>NULL\<close>; the status and the body, as far as its
  first zero byte, go to the two diagnostic lines and nowhere else. Whatever the body, no
  run of \<^verbatim>\<open>main\<close> that returns hands anything to the JSON parser, which
  \<^verbatim>\<open>parse_claude_response\<close> calls first, and a run that posted the request ends with
  status 1.
\<close>

lemma non_2xx_with_body:
  assumes payload: "build_payload w profile git_diff = Inr (Some json_string, [])"
    and curl: "lib_ok w 301"
    and transfer: "\<And>req. perform w req = t"
    and completed: "curl_code t = 0"
    and status: "\<not> (200 \<le> http_code t \<and> http_code t < 300)"
    and body: "chunks t \<noteq> []"
    and realloc: "\<And>n. alloc_ok w 48 n"
    and fits: "length (concat (chunks t)) + 1 < SIZE_MOD"
  shows "call_claude_api w api_key profile git_diff =
           Inr (None,
                [Http_Post (make_request w api_key json_string),
                 Print Stderr ''Error: API request failed with HTTP code %ld\<newline>''
                   [Long (http_code t)],
                 Print Stderr ''Response: %s\<newline>''
                   [Str (Some (takeWhile (\<lambda>c. c \<noteq> NUL) (concat (chunks t))))]])"
proof -
  have "transfer_and_collect w api_key json_string =
           Inr (None,
                [Http_Post (make_request w api_key json_string),
                 Print Stderr ''Error: API request failed with HTTP code %ld\<newline>''
                   [Long (http_code t)],
                 Print Stderr ''Response: %s\<newline>''
                   [Str (Some (takeWhile (\<lambda>c. c \<noteq> NUL) (concat (chunks t))))]])"
    using realloc curl transfer completed status body fits by (rule transfer_not_2xx)
  then show ?thesis
    using payload by (simp add: call_claude_api_def)
qed

lemma non_2xx_never_parsed:
  assumes transfer: "\<And>req. perform w req = t"
    and status: "\<not> (200 \<le> http_code t \<and> http_code t < 300)"
    and m: "main w argv0 opts args = Inr (code, evs)"
  shows "Json_Parse r \<notin> set evs \<and> (Http_Post req \<in> set evs \<longrightarrow> code = 1)"
proof -
  have never: "call_claude_api w k p d \<noteq> Inr (Some r, evs)" for k p d r evs
    using status by (intro call_no_response) (simp add: transfer)
  show ?thesis
    using main_no_response [OF never m] by blast
qed

text \<open>
  C6 fails on the code for the empty body. With status 404 and no chunk, the buffer is
  still the one byte that \<^verbatim>\<open>malloc\<close> returned at line 226 and nobody wrote, here \<open>#\<close>;
  line 364 hands it to \<^verbatim>\<open>fprintf\<close> for \<^verbatim>\<open>%s\<close>, which reads on behind the block for a
  terminator, so neither \<^verbatim>\<open>call_claude_api\<close> nor \<^verbatim>\<open>main\<close> is sure to return. With a
  body of at least one chunk the claim holds, which is \<open>non_2xx_with_body\<close> and
  \<open>non_2xx_never_parsed\<close>.
\<close>

theorem non_2xx_empty_body_over_read:
  "chunks (sample_transfer [] 404) = [] \<and>
   \<not> terminated (c_malloc (sample_world None (sample_transfer [] 404)) 1) \<and>
   call_claude_api (sample_world None (sample_transfer [] 404)) ''sk-key'' ''I write C.'' ''+x'' =
     Inl Undefined_behaviour \<and>
   main (sample_world None (sample_transfer [] 404)) ''git-commit-ai'' [] [''+x''] =
     Inl Undefined_behaviour"
proof -
  let ?t = "sample_transfer [] 404"
  let ?w = "sample_world None ?t"
  have m: "c_malloc ?w 1 = ''#''"
    by (simp add: c_malloc_def sample_world_simps)
  have m': "c_malloc (sample_world None \<lparr>chunks = [], curl_code = 0, http_code = 404\<rparr>)
              (Suc 0) = ''#''"
    by (simp add: c_malloc_def sample_world_simps)
  have nt: "\<not> terminated ''#''"
    by (simp add: terminated_def)
  have b: "build_payload ?w ''I write C.'' ''+x'' = Inr (Some ''{}'', [])"
    using build_payload_eq [of ?w "''I write C.''" "''+x''"]
    by (simp add: sample_world_simps INT_MAX_def)
  have "transfer_and_collect ?w ''sk-key'' ''{}'' = Inl Undefined_behaviour"
    unfolding transfer_and_collect_def Let_def
    using nt by (simp add: sample_world_simps sample_transfer_def m')
  then have c: "call_claude_api ?w ''sk-key'' ''I write C.'' ''+x'' = Inl Undefined_behaviour"
    by (simp add: call_claude_api_def b)
  have "main ?w ''git-commit-ai'' [] [''+x''] =
          run_request ?w initial_settings
            (trim_ws (takeWhile (\<lambda>c. c \<noteq> NUL) ''  sk-key\<newline>''))
            (takeWhile (\<lambda>c. c \<noteq> NUL) ''I write C.'') ''+x''"
    by (rule main_default_run [where home = "''/home/u''"])
      (simp_all add: sample_world_simps sample_files_def)
  then have "main ?w ''git-commit-ai'' [] [''+x''] =
               run_request ?w initial_settings ''sk-key'' ''I write C.'' ''+x''"
    by (simp add: trim_ws_def is_space_def)
  then have r: "main ?w ''git-commit-ai'' [] [''+x''] = Inl Undefined_behaviour"
    by (simp add: run_request_def c)
  show ?thesis
    using m nt c r by (simp add: sample_transfer_def)
qed

text \<open>
  The run with status 404 and the body \<open>Not Found\<close> in three chunks, one of them empty.
\<close>

lemma non_2xx_sample_run:
  "call_claude_api (sample_world None (sample_transfer [''Not'', [], '' Found''] 404))
     ''sk-key'' ''I write C.'' ''+x'' =
     Inr (None,
          [Http_Post (make_request (sample_world None (sample_transfer [''Not'', [], '' Found''] 404))
                        ''sk-key'' ''{}''),
           Print Stderr ''Error: API request failed with HTTP code %ld\<newline>'' [Long 404],
           Print Stderr ''Response: %s\<newline>'' [Str (Some ''Not Found'')]])"
proof -
  let ?t = "sample_transfer [''Not'', [], '' Found''] 404"
  let ?w = "sample_world None ?t"
  have b: "build_payload ?w ''I write C.'' ''+x'' = Inr (Some ''{}'', [])"
    using build_payload_eq [of ?w "''I write C.''" "''+x''"]
    by (simp add: sample_world_simps INT_MAX_def)
  have h: "lib_ok ?w 301" "\<And>req. perform ?w req = ?t" "curl_code ?t = 0"
    "\<not> (200 \<le> http_code ?t \<and> http_code ?t < 300)" "chunks ?t \<noteq> []"
    "\<And>n. alloc_ok ?w 48 n" "length (concat (chunks ?t)) + 1 < SIZE_MOD"
    by (simp_all add: sample_world_simps sample_transfer_def SIZE_MOD_def)
  show ?thesis
    using non_2xx_with_body [OF b h, of "''sk-key''"]
    by (simp add: sample_transfer_def)
qed

text \<open>
  C8 fails on the code for the sequence of no chunks. The buffer that
  \<^verbatim>\<open>call_claude_api\<close> sets up at lines 226-232 is one byte that \<^verbatim>\<open>malloc\<close> returned and
  nobody wrote; with no chunk, \<^verbatim>\<open>WriteMemoryCallback\<close> never runs, and the byte at index
  \<open>size\<close> is that byte, here \<open>#\<close>, not a terminator. With status 200, line 360 reads
  the buffer as a string. For every sequence that is not empty the claim holds, which
  is \<open>deliver_from_start\<close>.
\<close>

theorem accumulator_without_chunks:
  "deliver (sample_world None (sample_transfer [] 200))
     \<lparr>memory = c_malloc (sample_world None (sample_transfer [] 200)) 1, size_bytes = 0\<rparr> [] =
     Inr (True, \<lparr>memory = ''#'', size_bytes = 0\<rparr>, []) \<and>
   ''#'' ! 0 \<noteq> NUL \<and>
   \<not> terminated ''#'' \<and>
   call_claude_api (sample_world None (sample_transfer [] 200)) ''sk-key'' ''I write C.'' ''+x'' =
     Inl Undefined_behaviour"
proof -
  let ?t = "sample_transfer [] 200"
  let ?w = "sample_world None ?t"
  have m: "c_malloc ?w 1 = ''#''"
    by (simp add: c_malloc_def sample_world_simps)
  have b: "build_payload ?w ''I write C.'' ''+x'' = Inr (Some ''{}'', [])"
    using build_payload_eq [of ?w "''I write C.''" "''+x''"]
    by (simp add: sample_world_simps INT_MAX_def)
  have nt: "\<not> terminated ''#''"
    by (simp add: terminated_def)
  have m': "c_malloc (sample_world None \<lparr>chunks = [], curl_code = 0, http_code = 200\<rparr>)
              (Suc 0) = ''#''"
    by (simp add: c_malloc_def sample_world_simps)
  have "transfer_and_collect ?w ''sk-key'' ''{}'' = Inl Undefined_behaviour"
    unfolding transfer_and_collect_def Let_def
    using nt by (simp add: sample_world_simps sample_transfer_def m')
  then have "call_claude_api ?w ''sk-key'' ''I write C.'' ''+x'' = Inl Undefined_behaviour"
    by (simp add: call_claude_api_def b)
  with m nt show ?thesis
    by simp
qed

end
